theory Spec2Isabelle
  imports Main "HOL-Library.Char_ord" "HOL-Library.List_Lexorder" "HOL-Library.AList"
begin

section \<open>Strings and POSIX paths\<close>

text \<open>
  The build script manipulates file names with Python's \<^verbatim>\<open>str\<close> methods and with
  \<^verbatim>\<open>os.path\<close> (\<^verbatim>\<open>posixpath\<close> on the hosts modelled here). Strings are byte strings,
  compared lexicographically byte by byte, which is the order \<^theory_text>\<open>List_Lexorder\<close> with
  \<^theory_text>\<open>Char_ord\<close> gives to \<^typ>\<open>string\<close>.
\<close>

type_synonym path = string

definition startswith :: "string \<Rightarrow> string \<Rightarrow> bool" where
  "startswith s pre = (take (length pre) s = pre)"

definition endswith :: "string \<Rightarrow> string \<Rightarrow> bool" where
  "endswith s suf = (length suf \<le> length s \<and> drop (length s - length suf) s = suf)"

text \<open>\<^verbatim>\<open>s.split(c)\<close>: the pieces between occurrences of \<open>c\<close> (at least one piece).\<close>

fun split_on :: "char \<Rightarrow> string \<Rightarrow> string list" where
  "split_on c [] = [[]]"
| "split_on c (x # xs) =
     (if x = c then [] # split_on c xs
      else (case split_on c xs of [] \<Rightarrow> [[x]] | w # ws \<Rightarrow> (x # w) # ws))"

text \<open>\<^verbatim>\<open>sep.join(xs)\<close>.\<close>

fun str_join :: "string \<Rightarrow> string list \<Rightarrow> string" where
  "str_join sep [] = []"
| "str_join sep [x] = x"
| "str_join sep (x # y # ys) = x @ sep @ str_join sep (y # ys)"

text \<open>\<^verbatim>\<open>s.rstrip(c)\<close> for a single character.\<close>

definition rstrip :: "char \<Rightarrow> string \<Rightarrow> string" where
  "rstrip c s = rev (dropWhile (\<lambda>x. x = c) (rev s))"

text \<open>
  \<^verbatim>\<open>s.rsplit(c, 1)\<close>: one piece when \<open>c\<close> does not occur, otherwise the text before the
  last \<open>c\<close> and the text after it.
\<close>

definition rsplit1 :: "char \<Rightarrow> string \<Rightarrow> string list" where
  "rsplit1 c s =
     (if c \<in> set s
      then [rev (tl (dropWhile (\<lambda>x. x \<noteq> c) (rev s))), rev (takeWhile (\<lambda>x. x \<noteq> c) (rev s))]
      else [s])"

text \<open>\<^verbatim>\<open>xs[i]\<close> for a non-negative index; \<open>None\<close> stands for \<^verbatim>\<open>IndexError\<close>.\<close>

fun py_index :: "'a list \<Rightarrow> nat \<Rightarrow> 'a option" where
  "py_index [] i = None"
| "py_index (x # xs) 0 = Some x"
| "py_index (x # xs) (Suc i) = py_index xs i"

text \<open>\<^verbatim>\<open>xs[-1]\<close>.\<close>

definition py_last :: "'a list \<Rightarrow> 'a option" where
  "py_last xs = (case xs of [] \<Rightarrow> None | _ # _ \<Rightarrow> Some (last xs))"

text \<open>\<^verbatim>\<open>posixpath.isabs\<close>, and one step of the loop of \<^verbatim>\<open>posixpath.join\<close>.\<close>

definition isabs :: "path \<Rightarrow> bool" where
  "isabs p = startswith p ''/''"

definition path_join2 :: "path \<Rightarrow> path \<Rightarrow> path" where
  "path_join2 a b =
     (if startswith b ''/'' then b
      else if a = [] \<or> endswith a ''/'' then a @ b
      else a @ ''/'' @ b)"

text \<open>\<^verbatim>\<open>posixpath.join(a, *p)\<close>.\<close>

definition path_join :: "path \<Rightarrow> path list \<Rightarrow> path" where
  "path_join a p = foldl path_join2 a p"

text \<open>\<^verbatim>\<open>posixpath.split\<close> and \<^verbatim>\<open>posixpath.dirname\<close>.\<close>

definition path_split :: "path \<Rightarrow> path \<times> path" where
  "path_split p =
     (let head = rev (dropWhile (\<lambda>x. x \<noteq> CHR ''/'') (rev p));
          tail = rev (takeWhile (\<lambda>x. x \<noteq> CHR ''/'') (rev p))
      in (if head \<noteq> [] \<and> head \<noteq> replicate (length head) (CHR ''/'')
          then rstrip (CHR ''/'') head else head, tail))"

definition dirname :: "path \<Rightarrow> path" where
  "dirname p = fst (path_split p)"

text \<open>
  \<^verbatim>\<open>posixpath.normpath\<close>: empty and \<^verbatim>\<open>.\<close> components are dropped, \<^verbatim>\<open>..\<close> removes the
  component before it, exactly two leading slashes are kept.
\<close>

definition normpath_step :: "bool \<Rightarrow> string list \<Rightarrow> string \<Rightarrow> string list" where
  "normpath_step initial_slashes new_comps component =
     (if component = [] \<or> component = ''.'' then new_comps
      else if component \<noteq> ''..'' \<or> (\<not> initial_slashes \<and> new_comps = [])
              \<or> (new_comps \<noteq> [] \<and> last new_comps = ''..'')
      then new_comps @ [component]
      else if new_comps \<noteq> [] then butlast new_comps
      else new_comps)"

definition normpath :: "path \<Rightarrow> path" where
  "normpath p =
     (if p = [] then ''.''
      else
        let initial_slashes =
              (if startswith p ''/''
               then (if startswith p ''//'' \<and> \<not> startswith p ''///'' then 2 else 1)
               else (0::nat));
            comps = foldl (normpath_step (initial_slashes \<noteq> 0)) [] (split_on (CHR ''/'') p);
            joined = str_join ''/'' comps;
            res = (if initial_slashes \<noteq> 0
                   then replicate initial_slashes (CHR ''/'') @ joined else joined)
        in if res = [] then ''.'' else res)"

text \<open>\<^verbatim>\<open>posixpath.abspath\<close>, with the working directory \<^verbatim>\<open>os.getcwd()\<close> as an argument.\<close>

definition abspath :: "path \<Rightarrow> path \<Rightarrow> path" where
  "abspath cwd_now p = normpath (if isabs p then p else path_join cwd_now [p])"

section \<open>The world the script runs in\<close>

text \<open>
  Values that cross the tool boundary (positional and keyword arguments of a tool
  call).
\<close>

datatype pyval = PStr string | PBool bool | PInt int | PStrs "string list" | PNone

text \<open>
  Modelled from the spec: the tool wrapper classes \<^verbatim>\<open>Aapt\<close>, \<^verbatim>\<open>Aidl\<close>, \<^verbatim>\<open>Dx\<close>,
  \<^verbatim>\<open>ZipAlign\<close>, \<^verbatim>\<open>ApkBuilder\<close>, \<^verbatim>\<open>JavaC\<close> and \<^verbatim>\<open>JarSigner\<close> come from the module
  \<^verbatim>\<open>tools\<close>, which is not part of the source. Each is constructed from the path of an
  executable and is a callable taking keyword-style parameters; the call runs the
  external process and raises when the process fails.
\<close>

datatype tool = Aapt path | Aidl path | Dx path | ZipAlign path | ApkBuilder path
  | JavaC path | JarSigner path

datatype call = Call tool "pyval list" "(string \<times> pyval) list"

datatype errno = ENOENT | EEXIST | ENOTDIR | EISDIR | ENOTEMPTY | EINVAL

datatype error =
    ValueError string
  | IndexError
  | KeyError string
  | OSError errno path
  | IOError path
  | AttributeError
  | UnboundLocalError string
  | ToolError call

datatype node = File string | Dir

type_synonym filesystem = "(path \<times> node) list"

type_synonym dict = "string \<rightharpoonup> string"

text \<open>
  The state: the working directory, the files and directories (an association list
  from path to node; a path names a node by its text, the model resolves neither
  \<^verbatim>\<open>..\<close> nor links), the text \<^verbatim>\<open>'%s' % time.time()\<close> gives, the log of the tool
  calls that succeeded, and the store of dictionary objects with the next free
  address. The object at address \<open>0\<close> is the dictionary that the default value
  \<^verbatim>\<open>custom_paths={}\<close> of \<^verbatim>\<open>PlatformTarget.__init__\<close> created when the module was loaded.
\<close>

record world =
  cwd :: path
  fs :: filesystem
  now :: string
  calls :: "call list"
  heap :: "nat \<Rightarrow> dict"
  next_free :: nat

text \<open>
  The host: \<^verbatim>\<open>sys.platform\<close>, what an external tool does to the files when it is run
  (\<open>None\<close> when the process fails), and what \<^verbatim>\<open>ElementTree\<close> reads as the \<^verbatim>\<open>package\<close>
  attribute of the root element of a manifest's text.
\<close>

record host =
  sys_platform :: string
  run_tool :: "call \<Rightarrow> path \<Rightarrow> filesystem \<Rightarrow> filesystem option"
  manifest_package :: "string \<Rightarrow> string option"

definition default_custom_paths :: nat where
  "default_custom_paths = 0"

text \<open>Sequencing of steps that may raise.\<close>

definition and_then :: "error + 'a \<Rightarrow> ('a \<Rightarrow> error + 'b) \<Rightarrow> error + 'b" where
  "and_then m f = (case m of Inl e \<Rightarrow> Inl e | Inr x \<Rightarrow> f x)"

subsection \<open>Files and directories\<close>

definition os_path_exists :: "world \<Rightarrow> path \<Rightarrow> bool" where
  "os_path_exists w p = (map_of (fs w) p \<noteq> None)"

definition os_path_isdir :: "world \<Rightarrow> path \<Rightarrow> bool" where
  "os_path_isdir w p = (map_of (fs w) p = Some Dir)"

text \<open>The name under which \<open>q\<close> is an entry of the directory \<open>d\<close>, if it is one.\<close>

definition entry_name :: "path \<Rightarrow> path \<Rightarrow> string option" where
  "entry_name d q =
     (let pre = (if d = [] \<or> endswith d ''/'' then d else d @ ''/'');
          n = drop (length pre) q
      in if startswith q pre \<and> n \<noteq> [] \<and> CHR ''/'' \<notin> set n then Some n else None)"

text \<open>
  \<^verbatim>\<open>os.listdir\<close>; \<open>None\<close> stands for \<^verbatim>\<open>OSError\<close> (\<^verbatim>\<open>ENOTDIR\<close> when the path names
  a file, \<^verbatim>\<open>ENOENT\<close> when it names nothing). The directory is looked up by the text
  of its path, as every node is: a path with a trailing slash, a path relative to
  the working directory and a path through \<^verbatim>\<open>..\<close> name no node here, where the
  operating system would resolve them.
\<close>

definition os_listdir :: "world \<Rightarrow> path \<Rightarrow> string list option" where
  "os_listdir w d =
     (if os_path_isdir w d
      then Some (remdups (List.map_filter (entry_name d) (map fst (fs w))))
      else None)"

lemma entry_name_join:
  assumes "entry_name d q = Some n"
  shows "path_join d [n] = q" and "length d < length q"
proof -
  let ?pre = "if d = [] \<or> endswith d ''/'' then d else d @ ''/''"
  from assms have sw: "startswith q ?pre" and n: "n = drop (length ?pre) q"
    and ne: "n \<noteq> []" and ns: "CHR ''/'' \<notin> set n"
    by (auto simp: entry_name_def Let_def split: if_splits)
  from sw n have q: "q = ?pre @ n"
    by (metis append_take_drop_id startswith_def)
  from ne ns have "\<not> startswith n ''/''"
    by (cases n) (auto simp: startswith_def)
  then show "path_join d [n] = q"
    using q by (auto simp: path_join_def path_join2_def)
  from q ne show "length d < length q"
    by (cases n) (auto split: if_splits)
qed

lemma set_map_filter_iff:
  "n \<in> set (List.map_filter f xs) \<longleftrightarrow> (\<exists>x \<in> set xs. f x = Some n)"
  by (induction xs) (auto split: option.splits)

lemma os_listdir_entry:
  assumes "os_listdir w d = Some names" and "n \<in> set names"
  shows "path_join d [n] \<in> fst ` set (fs w)" and "length d < length (path_join d [n])"
proof -
  from assms obtain q where q: "q \<in> fst ` set (fs w)" and e: "entry_name d q = Some n"
    by (fastforce simp: os_listdir_def set_map_filter_iff split: if_splits)
  from entry_name_join[OF e] q show "path_join d [n] \<in> fst ` set (fs w)" by simp
  from entry_name_join[OF e] show "length d < length (path_join d [n])" by simp
qed

lemma key_length_le_sum:
  "q \<in> fst ` set xs \<Longrightarrow> length q \<le> sum_list (map (length \<circ> fst) xs)"
  by (induction xs) fastforce+

text \<open>
  \<^verbatim>\<open>os.walk(top)\<close>, top down: the directory, its sub-directories and its other
  entries, then the same for each sub-directory. A directory that cannot be listed
  gives nothing.
\<close>

function os_walk :: "world \<Rightarrow> path \<Rightarrow> (path \<times> string list \<times> string list) list" where
  "os_walk w top_dir =
     (case os_listdir w top_dir of
        None \<Rightarrow> []
      | Some names \<Rightarrow>
          (top_dir,
           filter (\<lambda>n. os_path_isdir w (path_join top_dir [n])) names,
           filter (\<lambda>n. \<not> os_path_isdir w (path_join top_dir [n])) names)
          # concat (map (\<lambda>n. os_walk w (path_join top_dir [n]))
                     (filter (\<lambda>n. os_path_isdir w (path_join top_dir [n])) names)))"
  by pat_completeness auto

termination
proof (relation "measure (\<lambda>(w, t). Suc (sum_list (map (length \<circ> fst) (fs w))) - length t)")
  show "wf (measure (\<lambda>(w, t). Suc (sum_list (map (length \<circ> fst) (fs w))) - length t))"
    by simp
next
  fix w top_dir names n
  assume l: "os_listdir w top_dir = Some names"
    and n: "n \<in> set (filter (\<lambda>n. os_path_isdir w (path_join top_dir [n])) names)"
  from n have "n \<in> set names" by simp
  from os_listdir_entry[OF l this] key_length_le_sum
  have "length top_dir < length (path_join top_dir [n])"
    and "length (path_join top_dir [n]) \<le> sum_list (map (length \<circ> fst) (fs w))"
    by blast+
  then show "((w, path_join top_dir [n]), (w, top_dir))
      \<in> measure (\<lambda>(w, t). Suc (sum_list (map (length \<circ> fst) (fs w))) - length t)"
    by simp
qed

text \<open>
  \<^verbatim>\<open>os.mkdir\<close>: the directory must be new and its parent must be a directory
  (\<^verbatim>\<open>ENOTDIR\<close> when the parent is a file, \<^verbatim>\<open>ENOENT\<close> when it is missing).
\<close>

definition os_mkdir :: "world \<Rightarrow> path \<Rightarrow> error + world" where
  "os_mkdir w p =
     (if os_path_exists w p then Inl (OSError EEXIST p)
      else if dirname p \<noteq> [] \<and> \<not> os_path_isdir w (dirname p)
      then Inl (OSError (if os_path_exists w (dirname p) then ENOTDIR else ENOENT) p)
      else Inr (w\<lparr>fs := fs w @ [(p, Dir)]\<rparr>))"

lemma rstrip_length_le: "length (rstrip c s) \<le> length s"
  by (simp add: rstrip_def) (metis length_dropWhile_le length_rev)

lemma path_split_fst_le: "length (fst (path_split p)) \<le> length p"
proof -
  let ?h = "rev (dropWhile (\<lambda>x. x \<noteq> CHR ''/'') (rev p))"
  have a: "length ?h \<le> length p"
    by (metis length_dropWhile_le length_rev)
  have b: "length (rstrip (CHR ''/'') ?h) \<le> length p"
    using rstrip_length_le[of "CHR ''/''" ?h] a by linarith
  show ?thesis
    using a b by (simp add: path_split_def Let_def)
qed

lemma path_split_fst_less:
  assumes "snd (path_split p) \<noteq> []"
  shows "length (fst (path_split p)) < length p"
proof -
  let ?d = "dropWhile (\<lambda>x. x \<noteq> CHR ''/'') (rev p)"
  let ?t = "takeWhile (\<lambda>x. x \<noteq> CHR ''/'') (rev p)"
  have len: "length ?t + length ?d = length p"
    by (metis length_append length_rev takeWhile_dropWhile_id)
  from assms have "?t \<noteq> []"
    by (simp add: path_split_def Let_def)
  then have "0 < length ?t" by (rule length_greater_0_conv[THEN iffD2])
  with len have "length ?d < length p" by linarith
  then have a: "length (rev ?d) < length p" by simp
  have b: "length (rstrip (CHR ''/'') (rev ?d)) < length p"
    using rstrip_length_le[of "CHR ''/''" "rev ?d"] a by linarith
  show ?thesis
    using a b by (simp add: path_split_def Let_def)
qed

text \<open>
  \<^verbatim>\<open>os.makedirs\<close>: the missing parents are made first; an \<^verbatim>\<open>EEXIST\<close> from making
  them is ignored.
\<close>

function os_makedirs :: "world \<Rightarrow> path \<Rightarrow> error + world" where
  "os_makedirs w p =
     (let head0 = fst (path_split p);
          tail0 = snd (path_split p);
          head = (if tail0 = [] then fst (path_split head0) else head0);
          tail = (if tail0 = [] then snd (path_split head0) else tail0)
      in if head \<noteq> [] \<and> tail \<noteq> [] \<and> \<not> os_path_exists w head
         then (case os_makedirs w head of
                 Inl (OSError EEXIST q) \<Rightarrow> if tail = ''.'' then Inr w else os_mkdir w p
               | Inl e \<Rightarrow> Inl e
               | Inr w1 \<Rightarrow> if tail = ''.'' then Inr w1 else os_mkdir w1 p)
         else os_mkdir w p)"
  by pat_completeness auto

termination
proof (relation "measure (\<lambda>(w, p). length p)")
  show "wf (measure (\<lambda>(w, p). length p))" by simp
next
  fix w p head0 tail0 head tail
  assume h0: "head0 = fst (path_split p)" and t0: "tail0 = snd (path_split p)"
    and h: "head = (if tail0 = [] then fst (path_split head0) else head0)"
    and t: "tail = (if tail0 = [] then snd (path_split head0) else tail0)"
    and c: "head \<noteq> [] \<and> tail \<noteq> [] \<and> \<not> os_path_exists w head"
  have "length head < length p"
  proof (cases "tail0 = []")
    case True
    with h t c have "snd (path_split head0) \<noteq> []" and "head = fst (path_split head0)" by auto
    then have "length head < length head0" using path_split_fst_less by simp
    also have "\<dots> \<le> length p" using h0 path_split_fst_le by simp
    finally show ?thesis .
  next
    case False
    with h t0 h0 show ?thesis using path_split_fst_less by simp
  qed
  then show "((w, head), (w, p)) \<in> measure (\<lambda>(w, p). length p)" by simp
qed


text \<open>Whether \<open>q\<close> is \<open>p\<close> or lies below the directory \<open>p\<close>.\<close>

definition within :: "path \<Rightarrow> path \<Rightarrow> bool" where
  "within p q = (q = p \<or> startswith q (if endswith p ''/'' then p else p @ ''/''))"

text \<open>
  \<^verbatim>\<open>shutil.rmtree\<close>: a directory goes with everything below it; anything else
  raises.
\<close>

definition shutil_rmtree :: "world \<Rightarrow> path \<Rightarrow> error + world" where
  "shutil_rmtree w p =
     (if os_path_isdir w p then Inr (w\<lparr>fs := filter (\<lambda>(q, n). \<not> within p q) (fs w)\<rparr>)
      else if os_path_exists w p then Inl (OSError ENOTDIR p)
      else Inl (OSError ENOENT p))"

text \<open>
  \<^verbatim>\<open>os.rename(src, dst)\<close> on POSIX: a file replaces a file, a directory moves with
  everything below it and may replace an empty directory.
\<close>

definition os_rename :: "world \<Rightarrow> path \<Rightarrow> path \<Rightarrow> error + world" where
  "os_rename w src dst =
     (case map_of (fs w) src of
        None \<Rightarrow> Inl (OSError ENOENT src)
      | Some (File content) \<Rightarrow>
          (case map_of (fs w) dst of
             Some Dir \<Rightarrow> Inl (OSError EISDIR dst)
           | Some (File old) \<Rightarrow>
               Inr (w\<lparr>fs := AList.update dst (File content) (AList.delete src (fs w))\<rparr>)
           | None \<Rightarrow>
               if dirname dst \<noteq> [] \<and> \<not> os_path_isdir w (dirname dst)
               then Inl (OSError (if os_path_exists w (dirname dst) then ENOTDIR else ENOENT) dst)
               else Inr (w\<lparr>fs := AList.update dst (File content) (AList.delete src (fs w))\<rparr>))
      | Some Dir \<Rightarrow>
          (if src = dst then Inr w
           else if within src dst then Inl (OSError EINVAL dst)
           else (case map_of (fs w) dst of
                   Some (File old) \<Rightarrow> Inl (OSError ENOTDIR dst)
                 | Some Dir \<Rightarrow>
                     if os_listdir w dst \<noteq> Some [] then Inl (OSError ENOTEMPTY dst)
                     else Inr (w\<lparr>fs := map (\<lambda>(q, n). if within src q
                                                     then (dst @ drop (length src) q, n) else (q, n))
                                          (AList.delete dst (fs w))\<rparr>)
                 | None \<Rightarrow>
                     if dirname dst \<noteq> [] \<and> \<not> os_path_isdir w (dirname dst)
                     then Inl (OSError (if os_path_exists w (dirname dst) then ENOTDIR else ENOENT) dst)
                     else Inr (w\<lparr>fs := map (\<lambda>(q, n). if within src q
                                                     then (dst @ drop (length src) q, n) else (q, n))
                                          (fs w)\<rparr>))))"

text \<open>
  Running a tool: the process either fails, and the call raises, or changes the
  files; the call is then logged.
\<close>

definition invoke :: "host \<Rightarrow> world \<Rightarrow> call \<Rightarrow> error + world" where
  "invoke h w c =
     (case run_tool h c (cwd w) (fs w) of
        None \<Rightarrow> Inl (ToolError c)
      | Some files \<Rightarrow> Inr (w\<lparr>fs := files, calls := calls w @ [c]\<rparr>))"

section \<open>Helpers of the build script\<close>

text \<open>Python's truth value of an optional string: \<open>None\<close> and \<^verbatim>\<open>''\<close> are false.\<close>

definition truthy :: "string option \<Rightarrow> bool" where
  "truthy s = (case s of None \<Rightarrow> False | Some t \<Rightarrow> t \<noteq> [])"


text \<open>
  \<^verbatim>\<open>fnmatch\<close> of a name against a pattern made of literal characters, \<^verbatim>\<open>*\<close> and
  \<^verbatim>\<open>?\<close> (the patterns of the script are \<^verbatim>\<open>*.aidl\<close> and \<^verbatim>\<open>*.java\<close>).
\<close>

fun fnmatch :: "string \<Rightarrow> string \<Rightarrow> bool" where
  "fnmatch [] [] = True"
| "fnmatch (n # ns) [] = False"
| "fnmatch [] (p # ps) = (p = CHR ''*'' \<and> fnmatch [] ps)"
| "fnmatch (n # ns) (p # ps) =
     (if p = CHR ''*'' then fnmatch (n # ns) ps \<or> fnmatch ns (p # ps)
      else (p = CHR ''?'' \<or> p = n) \<and> fnmatch ns ps)"

text \<open>\<^verbatim>\<open>recursive_glob(treeroot, pattern)\<close>.\<close>

definition recursive_glob :: "world \<Rightarrow> path \<Rightarrow> string \<Rightarrow> path list" where
  "recursive_glob w treeroot pattern =
     concat (map (\<lambda>(base, dirs, files).
                    map (\<lambda>f. path_join base [f]) (filter (\<lambda>f. fnmatch f pattern) files))
                 (os_walk w treeroot))"

text \<open>\<^verbatim>\<open>mkdir(directory, recursive=False)\<close>.\<close>

definition mkdir :: "world \<Rightarrow> path \<Rightarrow> bool \<Rightarrow> error + world" where
  "mkdir w directory recursive =
     (if \<not> os_path_exists w directory
      then (if recursive then os_makedirs w directory else os_mkdir w directory)
      else Inr w)"

section \<open>Artifacts and the platform target\<close>

datatype CodeObj = CodeObj path

datatype ResourceObj = ResourceObj path

fun CodeObj_filename :: "CodeObj \<Rightarrow> path" where
  "CodeObj_filename (CodeObj f) = f"

fun ResourceObj_filename :: "ResourceObj \<Rightarrow> path" where
  "ResourceObj_filename (ResourceObj f) = f"

record PlatformTarget =
  version :: string
  sdk_dir :: path
  platform_dir :: path
  dx :: tool
  aapt :: tool
  aidl :: tool
  zipalign :: tool
  apkbuilder :: tool
  javac :: tool
  jarsigner :: tool
  framework_library :: path
  framework_aidl :: path

record Apk =
  Apk_filename :: path
  Apk_platform :: PlatformTarget

text \<open>\<^verbatim>\<open>d[k]\<close> on a dictionary.\<close>

definition dict_get :: "dict \<Rightarrow> string \<Rightarrow> error + string" where
  "dict_get d k = (case d k of None \<Rightarrow> Inl (KeyError k) | Some v \<Rightarrow> Inr v)"

text \<open>The dictionary literal \<^verbatim>\<open>paths = dict(aapt=..., ...)\<close> of \<^verbatim>\<open>__init__\<close>.\<close>

definition tool_paths :: "host \<Rightarrow> path \<Rightarrow> dict" where
  "tool_paths h sdk = Map.empty
     (''aapt'' \<mapsto> path_join sdk [''platform-tools'',
         if sys_platform h = ''win32'' then ''aapt.exe'' else ''aapt''],
      ''aidl'' \<mapsto> path_join sdk [''platform-tools'',
         if sys_platform h = ''win32'' then ''aidl.exe'' else ''aidl''],
      ''dx'' \<mapsto> path_join sdk [''platform-tools'',
         if sys_platform h = ''win32'' then ''dx.bat'' else ''dx''],
      ''apkbuilder'' \<mapsto> path_join sdk [''tools'',
         if sys_platform h = ''win32'' then ''apkbuilder.bat'' else ''apkbuilder''],
      ''zipalign'' \<mapsto> path_join sdk [''tools'',
         if sys_platform h = ''win32'' then ''zipalign.exe'' else ''zipalign''],
      ''jarsigner'' \<mapsto> ''jarsigner'',
      ''javac'' \<mapsto> ''javac'')"

text \<open>
  \<^verbatim>\<open>PlatformTarget.__init__(self, version, sdk_dir, platform_dir, custom_paths={})\<close>.
  \<open>custom_paths\<close> is the address of the dictionary passed in, \<open>None\<close> when the
  argument is left out (the default object is used). The literal \<^verbatim>\<open>paths\<close> is a new
  object at the next free address, and \<^verbatim>\<open>paths.update(custom_paths)\<close> writes to it.
\<close>

definition custom_ref :: "nat option \<Rightarrow> nat" where
  "custom_ref custom_paths =
     (case custom_paths of None \<Rightarrow> default_custom_paths | Some a \<Rightarrow> a)"

definition PlatformTarget_init ::
  "host \<Rightarrow> world \<Rightarrow> string \<Rightarrow> path \<Rightarrow> path \<Rightarrow> nat option \<Rightarrow> error + (world \<times> PlatformTarget)" where
  "PlatformTarget_init h w version_arg sdk platform_root custom_paths =
     (let custom = custom_ref custom_paths;
          paths = next_free w;
          w1 = w\<lparr>heap := (heap w)(paths := tool_paths h sdk), next_free := Suc (next_free w)\<rparr>;
          w2 = w1\<lparr>heap := (heap w1)(paths := heap w1 paths ++ heap w1 custom)\<rparr>
      in and_then (dict_get (heap w2 paths) ''dx'') (\<lambda>p_dx.
         and_then (dict_get (heap w2 paths) ''aapt'') (\<lambda>p_aapt.
         and_then (dict_get (heap w2 paths) ''aidl'') (\<lambda>p_aidl.
         and_then (dict_get (heap w2 paths) ''zipalign'') (\<lambda>p_zipalign.
         and_then (dict_get (heap w2 paths) ''apkbuilder'') (\<lambda>p_apkbuilder.
         and_then (dict_get (heap w2 paths) ''javac'') (\<lambda>p_javac.
         and_then (dict_get (heap w2 paths) ''jarsigner'') (\<lambda>p_jarsigner.
           Inr (w2,
             \<lparr>version = version_arg, sdk_dir = sdk, platform_dir = platform_root,
              dx = Dx p_dx, aapt = Aapt p_aapt, aidl = Aidl p_aidl,
              zipalign = ZipAlign p_zipalign, apkbuilder = ApkBuilder p_apkbuilder,
              javac = JavaC p_javac, jarsigner = JarSigner p_jarsigner,
              framework_library = path_join platform_root [''android.jar''],
              framework_aidl = path_join platform_root [''framework.aidl'']\<rparr>)))))))))"

text \<open>The argument of \<^verbatim>\<open>sign\<close> and \<^verbatim>\<open>align\<close>: an \<^verbatim>\<open>Apk\<close> or a plain path.\<close>

datatype apk_arg = ApkArtifact Apk | ApkPath path

text \<open>The \<^verbatim>\<open>code\<close> and \<^verbatim>\<open>resources\<close> arguments of \<^verbatim>\<open>build_apk\<close>, likewise.\<close>

datatype code_arg = CodeArtifact CodeObj | CodePath path

datatype resources_arg = ResourceArtifact ResourceObj | ResourcePath path

text \<open>
  \<^verbatim>\<open>generate_r(self, manifest, resource_dir, output_dir)\<close>, and the call to
  \<^verbatim>\<open>self.aapt\<close> it makes.
\<close>

definition generate_r_call :: "PlatformTarget \<Rightarrow> path \<Rightarrow> path \<Rightarrow> path \<Rightarrow> call" where
  "generate_r_call self manifest resource_dir output_dir =
     Call (aapt self) []
       [(''command'', PStr ''package''),
        (''make_dirs'', PBool True),
        (''manifest'', PStr manifest),
        (''resource_dir'', PStr resource_dir),
        (''r_output'', PStr output_dir),
        (''include'', PStrs [framework_library self])]"

definition generate_r ::
  "host \<Rightarrow> world \<Rightarrow> PlatformTarget \<Rightarrow> path \<Rightarrow> path \<Rightarrow> path \<Rightarrow> error + world" where
  "generate_r h w self manifest resource_dir output_dir =
     and_then (mkdir w output_dir False) (\<lambda>w1.
       invoke h w1 (generate_r_call self manifest resource_dir output_dir))"

text \<open>The call that \<^verbatim>\<open>compile_aidl\<close> makes for one file, and its loop.\<close>

definition aidl_call :: "PlatformTarget \<Rightarrow> path \<Rightarrow> path \<Rightarrow> path \<Rightarrow> call" where
  "aidl_call self source_dir output_dir filename =
     Call (aidl self) [PStr filename]
       [(''preprocessed'', PStr (framework_aidl self)),
        (''search_path'', PStr source_dir),
        (''output_folder'', PStr output_dir)]"

fun invoke_all :: "host \<Rightarrow> world \<Rightarrow> call list \<Rightarrow> error + world" where
  "invoke_all h w [] = Inr w"
| "invoke_all h w (c # cs) = and_then (invoke h w c) (\<lambda>w1. invoke_all h w1 cs)"

text \<open>\<^verbatim>\<open>compile_aidl(self, source_dir, output_dir)\<close>.\<close>

definition compile_aidl ::
  "host \<Rightarrow> world \<Rightarrow> PlatformTarget \<Rightarrow> path \<Rightarrow> path \<Rightarrow> error + world" where
  "compile_aidl h w self source_dir output_dir =
     invoke_all h w
       (map (aidl_call self source_dir output_dir) (recursive_glob w source_dir ''*.aidl''))"

text \<open>\<^verbatim>\<open>compile_java(self, source_dirs, output_dir, debug=False, target='1.5')\<close>.\<close>

definition javac_call :: "PlatformTarget \<Rightarrow> path list \<Rightarrow> path \<Rightarrow> bool \<Rightarrow> string \<Rightarrow> call" where
  "javac_call self files output_dir debug target =
     Call (javac self) [PStrs files]
       [(''target'', PStr target),
        (''debug'', PBool debug),
        (''destdir'', PStr output_dir),
        (''bootclasspath'', PStr (framework_library self))]"

definition compile_java ::
  "host \<Rightarrow> world \<Rightarrow> PlatformTarget \<Rightarrow> path list \<Rightarrow> path \<Rightarrow> bool \<Rightarrow> string \<Rightarrow> error + world" where
  "compile_java h w self source_dirs output_dir debug target =
     (let files = concat (map (\<lambda>directory. recursive_glob w directory ''*.java'') source_dirs)
      in and_then (mkdir w output_dir True) (\<lambda>w1.
           invoke h w1 (javac_call self files output_dir debug target)))"

text \<open>\<^verbatim>\<open>dex(self, source_dir, output)\<close>.\<close>

definition dex_call :: "PlatformTarget \<Rightarrow> path \<Rightarrow> path \<Rightarrow> call" where
  "dex_call self source_dir output = Call (dx self) [PStrs [source_dir]] [(''output'', PStr output)]"

definition dex ::
  "host \<Rightarrow> world \<Rightarrow> PlatformTarget \<Rightarrow> path \<Rightarrow> path \<Rightarrow> error + (world \<times> CodeObj)" where
  "dex h w self source_dir output =
     (let output1 = abspath (cwd w) output
      in and_then (invoke h w (dex_call self source_dir output1))
           (\<lambda>w1. Inr (w1, CodeObj output1)))"

text \<open>
  \<^verbatim>\<open>compile(self, dex_output, manifest, source_dir, resource_dir, source_gen_dir,
  class_gen_dir, **kwargs)\<close>. The keyword arguments handed on to \<^verbatim>\<open>compile_java\<close> are
  \<open>debug\<close> and \<open>target\<close>, each optional.
\<close>

definition compile ::
  "host \<Rightarrow> world \<Rightarrow> PlatformTarget \<Rightarrow> path \<Rightarrow> path \<Rightarrow> path \<Rightarrow> path \<Rightarrow> path \<Rightarrow> path
     \<Rightarrow> bool option \<Rightarrow> string option \<Rightarrow> error + (world \<times> CodeObj)" where
  "compile h w self dex_output manifest source_dir resource_dir source_gen_dir class_gen_dir
       debug target =
     and_then (generate_r h w self manifest resource_dir source_gen_dir) (\<lambda>w1.
     and_then (compile_aidl h w1 self source_dir source_gen_dir) (\<lambda>w2.
     and_then (compile_java h w2 self [source_dir, source_gen_dir] class_gen_dir
                 (case debug of None \<Rightarrow> False | Some d \<Rightarrow> d)
                 (case target of None \<Rightarrow> ''1.5'' | Some t \<Rightarrow> t)) (\<lambda>w3.
       dex h w3 self class_gen_dir dex_output)))"

text \<open>
  \<^verbatim>\<open>pack_resources(self, manifest, resource_dir, asset_dir=None, output=None,
  configurations=None)\<close>. Without an output, \<^verbatim>\<open>path.abspath(None)\<close> raises.
\<close>

definition pack_resources_call ::
  "PlatformTarget \<Rightarrow> path \<Rightarrow> path \<Rightarrow> path option \<Rightarrow> path \<Rightarrow> string option \<Rightarrow> call" where
  "pack_resources_call self manifest resource_dir asset_dir output configurations =
     Call (aapt self) []
       ([(''command'', PStr ''package''),
         (''manifest'', PStr manifest),
         (''resource_dir'', PStr resource_dir),
         (''include'', PStrs [framework_library self]),
         (''apk_output'', PStr output),
         (''configurations'', (case configurations of None \<Rightarrow> PNone | Some c \<Rightarrow> PStr c)),
         (''overwrite'', PBool True)]
        @ (case asset_dir of
             None \<Rightarrow> []
           | Some a \<Rightarrow> if a \<noteq> [] then [(''asset_dir'', PStr a)] else []))"

definition pack_resources ::
  "host \<Rightarrow> world \<Rightarrow> PlatformTarget \<Rightarrow> path \<Rightarrow> path \<Rightarrow> path option \<Rightarrow> path option
     \<Rightarrow> string option \<Rightarrow> error + (world \<times> ResourceObj)" where
  "pack_resources h w self manifest resource_dir asset_dir output configurations =
     (case output of
        None \<Rightarrow> Inl AttributeError
      | Some output0 \<Rightarrow>
          (let output1 = abspath (cwd w) output0
           in and_then
                (invoke h w (pack_resources_call self manifest resource_dir asset_dir output1
                               configurations))
                (\<lambda>w1. Inr (w1, ResourceObj output1))))"

text \<open>\<^verbatim>\<open>build_apk(self, output, code=None, resources=None)\<close>.\<close>

definition build_apk_call ::
  "PlatformTarget \<Rightarrow> path \<Rightarrow> code_arg option \<Rightarrow> resources_arg option \<Rightarrow> call" where
  "build_apk_call self output code resources =
     Call (apkbuilder self) []
       ([(''outputfile'', PStr output)]
        @ (case code of
             None \<Rightarrow> []
           | Some (CodeArtifact c) \<Rightarrow> [(''dex'', PStr (CodeObj_filename c))]
           | Some (CodePath p) \<Rightarrow> if p \<noteq> [] then [(''dex'', PStr p)] else [])
        @ (case resources of
             None \<Rightarrow> []
           | Some (ResourceArtifact r) \<Rightarrow> [(''zips'', PStrs [ResourceObj_filename r])]
           | Some (ResourcePath p) \<Rightarrow> if p \<noteq> [] then [(''zips'', PStrs [p])] else []))"

definition build_apk ::
  "host \<Rightarrow> world \<Rightarrow> PlatformTarget \<Rightarrow> path \<Rightarrow> code_arg option \<Rightarrow> resources_arg option
     \<Rightarrow> error + (world \<times> Apk)" where
  "build_apk h w self output code resources =
     (let output1 = abspath (cwd w) output
      in and_then (invoke h w (build_apk_call self output1 code resources))
           (\<lambda>w1. Inr (w1, \<lparr>Apk_filename = output1, Apk_platform = self\<rparr>)))"

text \<open>The file an \<^verbatim>\<open>apk\<close> argument names: \<^verbatim>\<open>apk.filename if isinstance(apk, Apk) else apk\<close>.\<close>

fun apk_file :: "apk_arg \<Rightarrow> path" where
  "apk_file (ApkArtifact a) = Apk_filename a"
| "apk_file (ApkPath p) = p"

text \<open>\<^verbatim>\<open>sign(self, apk, keystore, alias, password)\<close>.\<close>

definition sign ::
  "host \<Rightarrow> world \<Rightarrow> PlatformTarget \<Rightarrow> apk_arg \<Rightarrow> string \<Rightarrow> string \<Rightarrow> string \<Rightarrow> error + world" where
  "sign h w self apk keystore alias password =
     invoke h w (Call (jarsigner self) [PStr (apk_file apk)]
       [(''keystore'', PStr keystore), (''alias'', PStr alias), (''password'', PStr password)])"

text \<open>
  \<^verbatim>\<open>align(self, apk, output=None)\<close>. The local \<^verbatim>\<open>outfile\<close> is assigned only under
  \<^verbatim>\<open>if not output\<close>; reading it unassigned raises \<^verbatim>\<open>UnboundLocalError\<close>.
\<close>

definition zipalign_call :: "PlatformTarget \<Rightarrow> path \<Rightarrow> path \<Rightarrow> call" where
  "zipalign_call self infile outfile =
     Call (zipalign self) [PStr infile, PStr outfile] [(''align'', PInt 4), (''force'', PBool True)]"

definition align ::
  "host \<Rightarrow> world \<Rightarrow> PlatformTarget \<Rightarrow> apk_arg \<Rightarrow> path option \<Rightarrow> error + (world \<times> apk_arg)" where
  "align h w self apk output =
     (let infile = apk_file apk;
          outfile = (if \<not> truthy output then Some (infile @ ''.align.'' @ now w) else None)
      in (case outfile of
            None \<Rightarrow> Inl (UnboundLocalError ''outfile'')
          | Some outfile1 \<Rightarrow>
              and_then (invoke h w (zipalign_call self infile outfile1)) (\<lambda>w1.
                if \<not> truthy output
                then and_then (os_rename w1 outfile1 infile) (\<lambda>w2. Inr (w2, apk))
                else Inr (w1, ApkArtifact \<lparr>Apk_filename = outfile1, Apk_platform = self\<rparr>))))"

text \<open>The methods of \<^verbatim>\<open>Apk\<close> hand over to the platform that built the package.\<close>

definition Apk_sign :: "host \<Rightarrow> world \<Rightarrow> Apk \<Rightarrow> string \<Rightarrow> string \<Rightarrow> string \<Rightarrow> error + world" where
  "Apk_sign h w self keystore alias password =
     sign h w (Apk_platform self) (ApkArtifact self) keystore alias password"

definition Apk_align :: "host \<Rightarrow> world \<Rightarrow> Apk \<Rightarrow> path option \<Rightarrow> error + (world \<times> apk_arg)" where
  "Apk_align h w self output = align h w (Apk_platform self) (ApkArtifact self) output"

section \<open>Resolving the platform\<close>

text \<open>
  The list comprehension \<^verbatim>\<open>[(p.rsplit('-', 1)[1], p) for p in platforms]\<close>; \<open>None\<close>
  when an index raises.
\<close>

fun version_pairs :: "path list \<Rightarrow> (string \<times> path) list option" where
  "version_pairs [] = Some []"
| "version_pairs (p # ps) =
     (case py_index (rsplit1 (CHR ''-'') p) 1 of
        None \<Rightarrow> None
      | Some v \<Rightarrow> (case version_pairs ps of None \<Rightarrow> None | Some r \<Rightarrow> Some ((v, p) # r)))"

text \<open>
  \<^verbatim>\<open>dict(pairs)\<close> keeps the last value given for a key: lookup and key set of the
  dictionary built from a list of pairs.
\<close>

definition pairs_lookup :: "(string \<times> 'v) list \<Rightarrow> string \<Rightarrow> 'v option" where
  "pairs_lookup kvs k = map_of (rev kvs) k"

definition pairs_keys :: "(string \<times> 'v) list \<Rightarrow> string list" where
  "pairs_keys kvs = remdups (map fst kvs)"

text \<open>
  The first value of the local \<^verbatim>\<open>platforms\<close> of \<^verbatim>\<open>get_platform\<close>: the directories
  under \<^verbatim>\<open>platforms\<close>; \<open>None\<close> when the listing raises.
\<close>

definition platform_dirs :: "world \<Rightarrow> path \<Rightarrow> path list option" where
  "platform_dirs w sdk_path =
     (case os_listdir w (path_join sdk_path [''platforms'']) of
        None \<Rightarrow> None
      | Some entries \<Rightarrow>
          Some (filter (os_path_isdir w)
                  (map (\<lambda>e. path_join sdk_path [''platforms'', e]) entries)))"

text \<open>\<^verbatim>\<open>sorted(platforms.keys())[-1]\<close>.\<close>

definition latest_target :: "(string \<times> path) list \<Rightarrow> error + string" where
  "latest_target platforms =
     (case py_last (sort (pairs_keys platforms)) of
        None \<Rightarrow> Inl IndexError
      | Some k \<Rightarrow> Inr k)"

text \<open>\<^verbatim>\<open>get_platform(sdk_path, target=None)\<close>.\<close>

definition get_platform ::
  "host \<Rightarrow> world \<Rightarrow> path \<Rightarrow> string option \<Rightarrow> error + (world \<times> PlatformTarget)" where
  "get_platform h w sdk_path target =
     (case platform_dirs w sdk_path of
        None \<Rightarrow>
          Inl (OSError
                 (if os_path_exists w (path_join sdk_path [''platforms'']) then ENOTDIR else ENOENT)
                 (path_join sdk_path [''platforms'']))
      | Some dirs \<Rightarrow>
          (case version_pairs dirs of
             None \<Rightarrow> Inl IndexError
           | Some platforms \<Rightarrow>
               and_then
                 (case target of
                    None \<Rightarrow> latest_target platforms
                  | Some t \<Rightarrow> if t \<noteq> [] then Inr t else latest_target platforms)
                 (\<lambda>target1.
                    (case pairs_lookup platforms target1 of
                       None \<Rightarrow> Inl (ValueError
                                 (''target \"'' @ target1 @ ''\" not found in \"'' @ sdk_path @ ''\"''))
                     | Some target_root \<Rightarrow>
                         PlatformTarget_init h w target1 sdk_path target_root None))))"

section \<open>The project\<close>

text \<open>
  An \<^verbatim>\<open>AndroidProject\<close> object. The attribute \<^verbatim>\<open>code\<close> exists only once \<^verbatim>\<open>compile\<close>
  has set it: \<open>None\<close> is the object without the attribute.
\<close>

record AndroidProject =
  platform :: PlatformTarget
  manifest :: path
  resource_dir :: path
  gen_dir :: path
  source_dir :: path
  out_dir :: path
  asset_dir :: path
  name :: string
  code :: "CodeObj option"

text \<open>The name read from the manifest when none is given.\<close>

definition manifest_name :: "host \<Rightarrow> world \<Rightarrow> path \<Rightarrow> error + string" where
  "manifest_name h w manifest_path =
     (case map_of (fs w) manifest_path of
        Some (File content) \<Rightarrow>
          (case manifest_package h content of
             None \<Rightarrow> Inl (KeyError ''package'')
           | Some n \<Rightarrow> Inr n)
      | Some Dir \<Rightarrow> Inl (IOError manifest_path)
      | None \<Rightarrow> Inl (IOError manifest_path))"

text \<open>
  \<^verbatim>\<open>AndroidProject.__init__(self, manifest, name=None, platform=None, sdk_dir=None,
  target=None)\<close>.
\<close>

definition AndroidProject_init ::
  "host \<Rightarrow> world \<Rightarrow> path \<Rightarrow> string option \<Rightarrow> PlatformTarget option \<Rightarrow> path option
     \<Rightarrow> string option \<Rightarrow> error + (world \<times> AndroidProject)" where
  "AndroidProject_init h w manifest_arg name_arg platform_arg sdk_dir_arg target =
     and_then
       (case platform_arg of
          Some p \<Rightarrow> Inr (w, p)
        | None \<Rightarrow>
            (case sdk_dir_arg of
               None \<Rightarrow> Inl (ValueError
                 ''You need to provide the SDK path, or a PlatformTarget instancen.'')
             | Some s \<Rightarrow>
                 if s = [] then Inl (ValueError
                   ''You need to provide the SDK path, or a PlatformTarget instancen.'')
                 else get_platform h w s target))
       (\<lambda>(w1, platform1).
          let manifest1 = abspath (cwd w1) manifest_arg;
              project_dir = dirname manifest1
          in and_then
               (case name_arg of
                  None \<Rightarrow> manifest_name h w1 manifest1
                | Some n \<Rightarrow> if n \<noteq> [] then Inr n else manifest_name h w1 manifest1)
               (\<lambda>name1. Inr (w1,
                  \<lparr>platform = platform1,
                   manifest = manifest1,
                   resource_dir = path_join project_dir [''res''],
                   gen_dir = path_join project_dir [''gen''],
                   source_dir = path_join project_dir [''src''],
                   out_dir = path_join project_dir [''bin''],
                   asset_dir = path_join project_dir [''asset''],
                   name = name1,
                   code = None\<rparr>)))"

text \<open>
  \<^verbatim>\<open>AndroidProject.compile(self)\<close>. The method has no \<^verbatim>\<open>return\<close>: the first component
  of the result is the value the call returns, and it is Python's \<^verbatim>\<open>None\<close>.
\<close>

definition AndroidProject_compile ::
  "host \<Rightarrow> world \<Rightarrow> AndroidProject \<Rightarrow> error + (CodeObj option \<times> world \<times> AndroidProject)" where
  "AndroidProject_compile h w self =
     and_then
       (compile h w (platform self)
          (path_join (out_dir self) [''classes.dex''])
          (manifest self)
          (source_dir self)
          (resource_dir self)
          (gen_dir self)
          (path_join (out_dir self) [''classes''])
          None None)
       (\<lambda>(w1, c). Inr (None, w1, self\<lparr>code := Some c\<rparr>))"

text \<open>\<^verbatim>\<open>AndroidProject.build(self, output=None, config=None)\<close>.\<close>

definition build ::
  "host \<Rightarrow> world \<Rightarrow> AndroidProject \<Rightarrow> path option \<Rightarrow> string option
     \<Rightarrow> error + (Apk \<times> world \<times> AndroidProject)" where
  "build h w self output config =
     and_then
       (if code self = None
        then and_then (AndroidProject_compile h w self) (\<lambda>(r, w1, self1). Inr (w1, self1))
        else Inr (w, self))
       (\<lambda>(w1, self1).
          let resource_filename =
                (if \<not> truthy config
                 then path_join (out_dir self1) [name self1 @ ''.ap_'']
                 else path_join (out_dir self1)
                        [name self1 @ ''.'' @ (case config of None \<Rightarrow> [] | Some c \<Rightarrow> c) @ ''.ap_''])
          in and_then
               (pack_resources h w1 (platform self1) (manifest self1) (resource_dir self1)
                  (if os_path_exists w1 (asset_dir self1) then Some (asset_dir self1) else None)
                  (Some resource_filename) config)
               (\<lambda>(w2, resources).
                  (case code self1 of
                     None \<Rightarrow> Inl AttributeError
                   | Some c \<Rightarrow>
                       and_then
                         (build_apk h w2 (platform self1)
                            (path_join (out_dir self1) [name self1 @ ''.apk''])
                            (Some (CodeArtifact c)) (Some (ResourceArtifact resources)))
                         (\<lambda>(w3, apk). Inr (apk, w3, self1)))))"

text \<open>\<^verbatim>\<open>AndroidProject.clean(self)\<close>; both tests are on \<^verbatim>\<open>self.out_dir\<close>.\<close>

definition clean :: "world \<Rightarrow> AndroidProject \<Rightarrow> error + world" where
  "clean w self =
     and_then
       (if os_path_exists w (out_dir self) then shutil_rmtree w (out_dir self) else Inr w)
       (\<lambda>w1. if os_path_exists w1 (out_dir self) then shutil_rmtree w1 (gen_dir self) else Inr w1)"

section \<open>Notions the claims use\<close>

text \<open>
  The Java-compilation stage has run once for each logged call of a \<^verbatim>\<open>JavaC\<close>
  wrapper.
\<close>

fun is_javac :: "call \<Rightarrow> bool" where
  "is_javac (Call (JavaC exe) args kw) = True"
| "is_javac c = False"

definition javac_runs :: "world \<Rightarrow> nat" where
  "javac_runs w = length (filter is_javac (calls w))"

text \<open>
  A platform object as \<^verbatim>\<open>__init__\<close> leaves it: each attribute holds the wrapper of
  its own tool.
\<close>

definition genuine_tools :: "PlatformTarget \<Rightarrow> bool" where
  "genuine_tools self =
     ((case dx self of Dx p \<Rightarrow> True | _ \<Rightarrow> False)
      \<and> (case aapt self of Aapt p \<Rightarrow> True | _ \<Rightarrow> False)
      \<and> (case aidl self of Aidl p \<Rightarrow> True | _ \<Rightarrow> False)
      \<and> (case zipalign self of ZipAlign p \<Rightarrow> True | _ \<Rightarrow> False)
      \<and> (case apkbuilder self of ApkBuilder p \<Rightarrow> True | _ \<Rightarrow> False)
      \<and> (case javac self of JavaC p \<Rightarrow> True | _ \<Rightarrow> False)
      \<and> (case jarsigner self of JarSigner p \<Rightarrow> True | _ \<Rightarrow> False))"


section \<open>An example host, world and project\<close>

text \<open>
  A host for the examples. Its aligner copies its input to its output and fails
  without an input; its resource packager writes \<^verbatim>\<open>R.java\<close> where it is asked to
  generate resource identifiers; its interface compiler writes a stub into its
  output folder; its other tools succeed without touching the files. The world has
  an SDK with three platforms and the project of the end-to-end scenario: a manifest
  with package \<^verbatim>\<open>com.example.app\<close>, an empty resource directory, one source file,
  and one interface definition.
\<close>

definition example_run :: "call \<Rightarrow> path \<Rightarrow> filesystem \<Rightarrow> filesystem option" where
  "example_run c d files =
     (case c of
        Call (ZipAlign exe) [PStr infile, PStr outfile] kw \<Rightarrow>
          (case map_of files infile of
             Some (File content) \<Rightarrow> Some (AList.update outfile (File content) files)
           | _ \<Rightarrow> None)
      | Call (Aapt exe) args kw \<Rightarrow>
          (case map_of kw ''r_output'' of
             Some (PStr out) \<Rightarrow>
               Some (AList.update (path_join out [''R.java'']) (File ''class R {}'') files)
           | _ \<Rightarrow> Some files)
      | Call (Aidl exe) args kw \<Rightarrow>
          (case map_of kw ''output_folder'' of
             Some (PStr out) \<Rightarrow>
               Some (AList.update (path_join out [''IFoo.java'']) (File ''interface IFoo {}'') files)
           | _ \<Rightarrow> Some files)
      | _ \<Rightarrow> Some files)"

definition example_host :: host where
  "example_host =
     \<lparr>sys_platform = ''linux2'',
      run_tool = example_run,
      manifest_package = (\<lambda>content. if content = ''com.example.app'' then Some content else None)\<rparr>"

definition example_world :: world where
  "example_world =
     \<lparr>cwd = ''/proj'',
      fs = [(''/'', Dir), (''/sdk'', Dir), (''/sdk/platforms'', Dir),
            (''/sdk/platforms/android-9'', Dir),
            (''/sdk/platforms/android-10'', Dir),
            (''/sdk/platforms/android-19'', Dir),
            (''/proj'', Dir),
            (''/proj/AndroidManifest.xml'', File ''com.example.app''),
            (''/proj/res'', Dir),
            (''/proj/src'', Dir),
            (''/proj/src/Main.java'', File ''class Main {}''),
            (''/proj/src/IFoo.aidl'', File ''interface IFoo {}'')],
      now = ''1320000000.12'',
      calls = [],
      heap = (\<lambda>a. if a = 1 then [''dx'' \<mapsto> ''/opt/dx''] else Map.empty),
      next_free = 2\<rparr>"

text \<open>The same world after a build: generated sources, output directory and package.\<close>

definition example_built_world :: world where
  "example_built_world =
     example_world\<lparr>fs := fs example_world @
        [(''/proj/gen'', Dir),
         (''/proj/gen/R.java'', File ''class R {}''),
         (''/proj/bin'', Dir),
         (''/proj/bin/classes.dex'', File ''dex''),
         (''/proj/bin/com.example.app.apk'', File ''PK'')]\<rparr>"

definition example_platform :: PlatformTarget where
  "example_platform =
     \<lparr>version = ''19'', sdk_dir = ''/sdk'', platform_dir = ''/sdk/platforms/android-19'',
      dx = Dx ''/sdk/platform-tools/dx'',
      aapt = Aapt ''/sdk/platform-tools/aapt'',
      aidl = Aidl ''/sdk/platform-tools/aidl'',
      zipalign = ZipAlign ''/sdk/tools/zipalign'',
      apkbuilder = ApkBuilder ''/sdk/tools/apkbuilder'',
      javac = JavaC ''javac'', jarsigner = JarSigner ''jarsigner'',
      framework_library = ''/sdk/platforms/android-19/android.jar'',
      framework_aidl = ''/sdk/platforms/android-19/framework.aidl''\<rparr>"

definition example_project :: AndroidProject where
  "example_project =
     \<lparr>platform = example_platform,
      manifest = ''/proj/AndroidManifest.xml'',
      resource_dir = ''/proj/res'', gen_dir = ''/proj/gen'',
      source_dir = ''/proj/src'', out_dir = ''/proj/bin'',
      asset_dir = ''/proj/asset'', name = ''com.example.app'',
      code = None\<rparr>"

section \<open>Basic facts\<close>

lemma and_then_Inr_iff:
  "and_then m f = Inr y \<longleftrightarrow> (\<exists>x. m = Inr x \<and> f x = Inr y)"
  by (cases m) (simp_all add: and_then_def)

lemma and_then_Inr [simp]: "and_then (Inr x) f = f x"
  by (simp add: and_then_def)

lemma and_then_Inl [simp]: "and_then (Inl e) f = Inl e"
  by (simp add: and_then_def)

lemma tool_paths_keys:
  "(tool_paths h s ++ m) ''dx'' \<noteq> None"
  "(tool_paths h s ++ m) ''aapt'' \<noteq> None"
  "(tool_paths h s ++ m) ''aidl'' \<noteq> None"
  "(tool_paths h s ++ m) ''zipalign'' \<noteq> None"
  "(tool_paths h s ++ m) ''apkbuilder'' \<noteq> None"
  "(tool_paths h s ++ m) ''javac'' \<noteq> None"
  "(tool_paths h s ++ m) ''jarsigner'' \<noteq> None"
  by (simp_all add: tool_paths_def map_add_def split: option.splits)

text \<open>
  The platform object that \<^verbatim>\<open>__init__\<close> builds from the final contents \<open>d\<close> of its
  path table (a device of the proofs below: all seven keys are present in \<open>d\<close>).
\<close>

definition platform_of :: "host \<Rightarrow> string \<Rightarrow> path \<Rightarrow> path \<Rightarrow> dict \<Rightarrow> PlatformTarget" where
  "platform_of h v s p d =
     \<lparr>version = v, sdk_dir = s, platform_dir = p,
      dx = Dx (the (d ''dx'')), aapt = Aapt (the (d ''aapt'')), aidl = Aidl (the (d ''aidl'')),
      zipalign = ZipAlign (the (d ''zipalign'')), apkbuilder = ApkBuilder (the (d ''apkbuilder'')),
      javac = JavaC (the (d ''javac'')), jarsigner = JarSigner (the (d ''jarsigner'')),
      framework_library = path_join p [''android.jar''],
      framework_aidl = path_join p [''framework.aidl'']\<rparr>"




lemma PlatformTarget_init_eq:
  "PlatformTarget_init h w v s p cp =
     Inr (w\<lparr>heap := (heap w)(next_free w :=
                 tool_paths h s ++ ((heap w)(next_free w := tool_paths h s)) (custom_ref cp)),
            next_free := Suc (next_free w)\<rparr>,
          platform_of h v s p
            (tool_paths h s ++ ((heap w)(next_free w := tool_paths h s)) (custom_ref cp)))"
proof -
  define d where "d = tool_paths h s ++ ((heap w)(next_free w := tool_paths h s)) (custom_ref cp)"
  have keys: "d ''dx'' \<noteq> None" "d ''aapt'' \<noteq> None" "d ''aidl'' \<noteq> None"
    "d ''zipalign'' \<noteq> None" "d ''apkbuilder'' \<noteq> None" "d ''javac'' \<noteq> None"
    "d ''jarsigner'' \<noteq> None"
    unfolding d_def by (rule tool_paths_keys)+
  have get: "dict_get d k = Inr (the (d k))" if "d k \<noteq> None" for k
    using that by (auto simp: dict_get_def)
  have "PlatformTarget_init h w v s p cp =
     Inr (w\<lparr>heap := (heap w)(next_free w := d), next_free := Suc (next_free w)\<rparr>,
          platform_of h v s p d)"
    unfolding PlatformTarget_init_def Let_def
    by (simp add: d_def[symmetric] get keys platform_of_def fun_upd_same del: fun_upd_apply)
  then show ?thesis by (simp only: d_def)
qed

lemma example_init_custom:
  "map_sum id (dx \<circ> snd)
     (PlatformTarget_init example_host example_world ''19'' ''/sdk''
        ''/sdk/platforms/android-19'' (Some 1)) = Inr (Dx ''/opt/dx'')"
  by code_simp

lemma example_init_default:
  "map_sum id snd
     (PlatformTarget_init example_host example_world ''19'' ''/sdk''
        ''/sdk/platforms/android-19'' None) = Inr example_platform"
  by code_simp

section \<open>Alignment\<close>

text \<open>
  C1. The claim: with an explicit output path, \<^verbatim>\<open>align\<close> leaves the original package
  alone and returns a new \<^verbatim>\<open>Apk\<close> whose path is the requested output. The code does
  not get that far: \<^verbatim>\<open>outfile\<close> is assigned only when no output is given, so with
  the output path \<^verbatim>\<open>/proj/bin/com.example.app-aligned.apk\<close> the call raises
  \<^verbatim>\<open>UnboundLocalError\<close> before the aligner runs, for every host, world, platform
  and package.
\<close>

theorem align_explicit_output_raises:
  "align h w self apk (Some ''/proj/bin/com.example.app-aligned.apk'')
     = Inl (UnboundLocalError ''outfile'')"
  by (simp add: align_def truthy_def)

text \<open>The same holds for every output path that is not empty.\<close>

lemma align_explicit_output_always_raises:
  "output \<noteq> [] \<Longrightarrow> align h w self apk (Some output) = Inl (UnboundLocalError ''outfile'')"
  by (simp add: align_def truthy_def)

section \<open>The path table of a platform\<close>

text \<open>
  C10. Constructing a \<^verbatim>\<open>PlatformTarget\<close> from a dictionary that exists (the shared
  default included) always succeeds, changes no dictionary that existed before (so
  neither the one passed in nor the default), puts the tool paths, overridden by
  the custom ones, into a new dictionary of its own, and has no influence on the
  platform any later construction from an existing dictionary gives.
\<close>

theorem PlatformTarget_init_keeps_custom_paths:
  assumes "custom_ref cp < next_free w"
  shows "\<exists>w1 self. PlatformTarget_init h w v s p cp = Inr (w1, self)
           \<and> (\<forall>a. a < next_free w \<longrightarrow> heap w1 a = heap w a)
           \<and> next_free w1 = Suc (next_free w)
           \<and> heap w1 (next_free w) = tool_paths h s ++ heap w (custom_ref cp)
           \<and> (\<forall>v2 s2 p2 cp2. custom_ref cp2 < next_free w \<longrightarrow>
                 map_sum id snd (PlatformTarget_init h w1 v2 s2 p2 cp2)
                   = map_sum id snd (PlatformTarget_init h w v2 s2 p2 cp2))"
proof -
  let ?d = "tool_paths h s ++ ((heap w)(next_free w := tool_paths h s)) (custom_ref cp)"
  let ?w1 = "w\<lparr>heap := (heap w)(next_free w := ?d), next_free := Suc (next_free w)\<rparr>"
  have eq: "PlatformTarget_init h w v s p cp = Inr (?w1, platform_of h v s p ?d)"
    by (rule PlatformTarget_init_eq)
  have old: "\<forall>a. a < next_free w \<longrightarrow> heap ?w1 a = heap w a"
    by simp
  have fresh: "heap ?w1 (next_free w) = tool_paths h s ++ heap w (custom_ref cp)"
    using assms by simp
  have other: "map_sum id snd (PlatformTarget_init h ?w1 v2 s2 p2 cp2)
                 = map_sum id snd (PlatformTarget_init h w v2 s2 p2 cp2)"
    if "custom_ref cp2 < next_free w" for v2 s2 p2 cp2
    using that by (simp add: PlatformTarget_init_eq)
  show ?thesis
    using eq old fresh other by (intro exI[of _ ?w1] exI[of _ "platform_of h v s p ?d"]) simp
qed

theorem PlatformTarget_init_keeps_custom_paths_witness:
  "custom_ref (Some 1) < next_free example_world
   \<and> map_sum id (dx \<circ> snd)
       (PlatformTarget_init example_host example_world ''19'' ''/sdk''
          ''/sdk/platforms/android-19'' (Some 1)) = Inr (Dx ''/opt/dx'')
   \<and> heap (fst (projr (PlatformTarget_init example_host example_world ''19'' ''/sdk''
          ''/sdk/platforms/android-19'' (Some 1)))) 1 = [''dx'' \<mapsto> ''/opt/dx'']
   \<and> heap (fst (projr (PlatformTarget_init example_host example_world ''19'' ''/sdk''
          ''/sdk/platforms/android-19'' (Some 1)))) default_custom_paths = Map.empty
   \<and> map_sum id snd
       (PlatformTarget_init example_host
          (fst (projr (PlatformTarget_init example_host example_world ''19'' ''/sdk''
             ''/sdk/platforms/android-19'' (Some 1))))
          ''19'' ''/sdk'' ''/sdk/platforms/android-19'' None) = Inr example_platform"
proof -
  have a: "custom_ref (Some 1) < next_free example_world"
    by (simp add: custom_ref_def example_world_def)
  have b: "custom_ref None < next_free example_world"
    by (simp add: custom_ref_def default_custom_paths_def example_world_def)
  from PlatformTarget_init_keeps_custom_paths[OF a, of example_host "''19''" "''/sdk''"
      "''/sdk/platforms/android-19''"]
  obtain w1 self where
    r: "PlatformTarget_init example_host example_world ''19'' ''/sdk''
          ''/sdk/platforms/android-19'' (Some 1) = Inr (w1, self)"
    and old: "\<forall>a. a < next_free example_world \<longrightarrow> heap w1 a = heap example_world a"
    and other: "\<forall>v2 s2 p2 cp2. custom_ref cp2 < next_free example_world \<longrightarrow>
                 map_sum id snd (PlatformTarget_init example_host w1 v2 s2 p2 cp2)
                   = map_sum id snd (PlatformTarget_init example_host example_world v2 s2 p2 cp2)"
    by blast
  have h1: "heap w1 1 = [''dx'' \<mapsto> ''/opt/dx'']"
    using old by (simp add: example_world_def)
  have h0: "heap w1 default_custom_paths = Map.empty"
    using old by (simp add: example_world_def default_custom_paths_def)
  have o: "map_sum id snd (PlatformTarget_init example_host w1 ''19'' ''/sdk''
             ''/sdk/platforms/android-19'' None) = Inr example_platform"
    using other b example_init_default by simp
  have d: "dx self = Dx ''/opt/dx''"
    using example_init_custom unfolding r by simp
  show ?thesis
    unfolding r using a d h1 h0 o by simp
qed

section \<open>Platform resolution\<close>

lemma sorted_le_last:
  fixes xs :: "'a::linorder list"
  shows "sorted xs \<Longrightarrow> y \<in> set xs \<Longrightarrow> y \<le> last xs"
  by (induction xs) auto

lemma last_sort_Max:
  fixes xs :: "'a::linorder list"
  assumes "xs \<noteq> []"
  shows "last (sort xs) = Max (set xs)"
proof -
  have ne: "sort xs \<noteq> []" using assms by (metis length_0_conv length_sort)
  have "Max (set (sort xs)) = last (sort xs)"
  proof (rule Max_eqI)
    show "finite (set (sort xs))" by simp
    show "y \<le> last (sort xs)" if "y \<in> set (sort xs)" for y
      using that sorted_le_last[of "sort xs" y] by simp
    show "last (sort xs) \<in> set (sort xs)" using ne by (rule last_in_set)
  qed
  then show ?thesis by simp
qed

lemma latest_target_Max:
  assumes "platforms \<noteq> []"
  shows "latest_target platforms = Inr (Max (fst ` set platforms))"
proof -
  have "pairs_keys platforms \<noteq> []"
    using assms by (cases platforms) (auto simp: pairs_keys_def)
  then have "sort (pairs_keys platforms) \<noteq> []"
    by (metis length_0_conv length_sort)
  moreover have "last (sort (pairs_keys platforms)) = Max (fst ` set platforms)"
    using last_sort_Max[OF \<open>pairs_keys platforms \<noteq> []\<close>] by (simp add: pairs_keys_def)
  ultimately show ?thesis
    by (auto simp: latest_target_def py_last_def split: list.splits)
qed

lemma pairs_lookup_key:
  assumes "k \<in> fst ` set platforms"
  shows "\<exists>p. pairs_lookup platforms k = Some p \<and> (k, p) \<in> set platforms"
proof -
  from assms have "k \<in> fst ` set (rev platforms)" by simp
  then obtain p where "map_of (rev platforms) k = Some p"
    by (metis map_of_eq_None_iff not_Some_eq)
  moreover from this have "(k, p) \<in> set platforms"
    using map_of_SomeD by fastforce
  ultimately show ?thesis by (simp add: pairs_lookup_def)
qed

lemma pairs_lookup_no_key:
  assumes "k \<notin> fst ` set platforms"
  shows "pairs_lookup platforms k = None"
  using assms by (simp add: pairs_lookup_def map_of_eq_None_iff)

lemma version_pairs_set:
  "version_pairs dirs = Some platforms \<Longrightarrow>
     (v, p) \<in> set platforms \<longleftrightarrow> p \<in> set dirs \<and> py_index (rsplit1 (CHR ''-'') p) 1 = Some v"
  by (induction dirs arbitrary: platforms) (auto split: option.splits)

lemma example_platform_dirs:
  "platform_dirs example_world ''/sdk'' =
     Some [''/sdk/platforms/android-9'', ''/sdk/platforms/android-10'',
           ''/sdk/platforms/android-19'']"
  by code_simp

lemma example_version_pairs:
  "version_pairs [''/sdk/platforms/android-9'', ''/sdk/platforms/android-10'',
                  ''/sdk/platforms/android-19''] =
     Some [(''9'', ''/sdk/platforms/android-9''), (''10'', ''/sdk/platforms/android-10''),
           (''19'', ''/sdk/platforms/android-19'')]"
  by code_simp

lemma example_versions_Max:
  "Max (fst ` set [(''9'', ''/sdk/platforms/android-9''), (''10'', ''/sdk/platforms/android-10''),
           (''19'', ''/sdk/platforms/android-19'')]) = ''9''"
  by code_simp

text \<open>
  C4, as amended. Let the directories under \<^verbatim>\<open>platforms\<close> be listed and let each carry a version
  suffix (the text after the last \<^verbatim>\<open>-\<close> of its path), so that \<open>platforms\<close> pairs every
  installed version identifier with its directory. If at least one platform is
  installed and no target is requested (the argument is left out, or is the empty
  string), \<^verbatim>\<open>get_platform\<close> returns the platform whose version is the greatest
  installed identifier in the lexicographic order of strings, rooted at a directory
  that carries that identifier.
\<close>

theorem get_platform_selects_greatest_version:
  assumes "platform_dirs w sdk_path = Some dirs"
    and "version_pairs dirs = Some platforms"
    and "platforms \<noteq> []"
    and "target = None \<or> target = Some []"
  shows "\<exists>w1 self. get_platform h w sdk_path target = Inr (w1, self)
           \<and> version self = Max (fst ` set platforms)
           \<and> (version self, platform_dir self) \<in> set platforms
           \<and> platform_dir self \<in> set dirs
           \<and> sdk_dir self = sdk_path"
proof -
  let ?v = "Max (fst ` set platforms)"
  have "?v \<in> fst ` set platforms"
    using assms(3) by (intro Max_in) auto
  then obtain p where p: "pairs_lookup platforms ?v = Some p" and mem: "(?v, p) \<in> set platforms"
    using pairs_lookup_key by blast
  have dir: "p \<in> set dirs"
    using version_pairs_set[OF assms(2)] mem by blast
  have "get_platform h w sdk_path target = PlatformTarget_init h w ?v sdk_path p None"
    using assms(1,2,4) latest_target_Max[OF assms(3)] p
    by (auto simp: get_platform_def)
  then show ?thesis
    using mem dir by (simp add: PlatformTarget_init_eq platform_of_def)
qed

theorem get_platform_selects_greatest_version_witness:
  "platform_dirs example_world ''/sdk'' =
     Some [''/sdk/platforms/android-9'', ''/sdk/platforms/android-10'',
           ''/sdk/platforms/android-19'']
   \<and> map_sum id (version \<circ> snd) (get_platform example_host example_world ''/sdk'' None)
       = Inr ''9''
   \<and> map_sum id (platform_dir \<circ> snd) (get_platform example_host example_world ''/sdk'' (Some []))
       = Inr ''/sdk/platforms/android-9''"
proof -
  let ?ps = "[(''9'', ''/sdk/platforms/android-9''), (''10'', ''/sdk/platforms/android-10''),
              (''19'', ''/sdk/platforms/android-19'')]"
  have ne: "?ps \<noteq> []" by simp
  from get_platform_selects_greatest_version[OF example_platform_dirs example_version_pairs ne,
      of None example_host]
  obtain w1 self where a: "get_platform example_host example_world ''/sdk'' None = Inr (w1, self)"
    and av: "version self = Max (fst ` set ?ps)"
    by blast
  from get_platform_selects_greatest_version[OF example_platform_dirs example_version_pairs ne,
      of "Some []" example_host]
  obtain w2 self2 where b: "get_platform example_host example_world ''/sdk'' (Some []) = Inr (w2, self2)"
    and bv: "version self2 = Max (fst ` set ?ps)"
    and bm: "(version self2, platform_dir self2) \<in> set ?ps"
    by blast
  from bm bv have "platform_dir self2 = ''/sdk/platforms/android-9''"
    unfolding example_versions_Max by simp
  with av show ?thesis
    unfolding a b example_versions_Max by (simp add: example_platform_dirs)
qed

text \<open>
  The claim C4 as it stands speaks of every non-empty set of installed platform
  version identifiers. In an SDK where the platforms 9, 10 and 19 are installed and
  \<^verbatim>\<open>platforms\<close> also holds a directory \<^verbatim>\<open>tmp\<close>, whose path has no \<^verbatim>\<open>-\<close>, resolving
  with no target selects nothing: \<^verbatim>\<open>rsplit('-', 1)[1]\<close> raises \<^verbatim>\<open>IndexError\<close> while the
  dictionary of platforms is built.
\<close>

theorem get_platform_stray_directory_counterexample:
  "platform_dirs (example_world\<lparr>fs := fs example_world @ [(''/sdk/platforms/tmp'', Dir)]\<rparr>)
       ''/sdk'' =
     Some [''/sdk/platforms/android-9'', ''/sdk/platforms/android-10'',
           ''/sdk/platforms/android-19'', ''/sdk/platforms/tmp'']
   \<and> map (\<lambda>p. py_index (rsplit1 (CHR ''-'') p) 1)
       [''/sdk/platforms/android-9'', ''/sdk/platforms/android-10'',
        ''/sdk/platforms/android-19'', ''/sdk/platforms/tmp'']
       = [Some ''9'', Some ''10'', Some ''19'', None]
   \<and> map_sum id snd
       (get_platform example_host
          (example_world\<lparr>fs := fs example_world @ [(''/sdk/platforms/tmp'', Dir)]\<rparr>)
          ''/sdk'' None)
       = Inl IndexError"
  by code_simp

text \<open>
  C5, as amended. Let the directories under \<^verbatim>\<open>platforms\<close> be listed and let each
  carry a version suffix. For every SDK root and every requested version string
  that is not empty and is the version of no installed platform, \<^verbatim>\<open>get_platform\<close>
  raises \<^verbatim>\<open>ValueError\<close> with the message
  \<^verbatim>\<open>target "<target>" not found in "<sdk_path>"\<close>, and so constructs no platform.
\<close>

theorem get_platform_target_not_found:
  assumes "platform_dirs w sdk_path = Some dirs"
    and "version_pairs dirs = Some platforms"
    and "target \<noteq> []"
    and "target \<notin> fst ` set platforms"
  shows "get_platform h w sdk_path (Some target)
           = Inl (ValueError (''target \"'' @ target @ ''\" not found in \"'' @ sdk_path @ ''\"''))"
  using assms pairs_lookup_no_key[OF assms(4)] by (simp add: get_platform_def)

theorem get_platform_target_not_found_witness:
  "get_platform example_host example_world ''/sdk'' (Some ''11'')
     = Inl (ValueError ''target \"11\" not found in \"/sdk\"'')"
proof -
  have "''11'' \<notin> fst ` set [(''9'', ''/sdk/platforms/android-9''),
           (''10'', ''/sdk/platforms/android-10''), (''19'', ''/sdk/platforms/android-19'')]"
    by simp
  from get_platform_target_not_found[OF example_platform_dirs example_version_pairs _ this,
      of example_host]
  show ?thesis by simp
qed

text \<open>
  The claim C5 as it stands speaks of every requested version string and every SDK
  root. The empty string is the version of no installed platform here, but the test
  \<^verbatim>\<open>if not target\<close> takes it for a missing argument: the call succeeds and returns
  the platform with the greatest version. And in an SDK with a directory
  \<^verbatim>\<open>platforms/tmp\<close>, whose path has no \<^verbatim>\<open>-\<close>, the request for the absent version
  \<^verbatim>\<open>11\<close> ends in the \<^verbatim>\<open>IndexError\<close> of \<^verbatim>\<open>rsplit('-', 1)[1]\<close>, not in the
  "target not found" error.
\<close>

theorem get_platform_empty_target_counterexample:
  "platform_dirs example_world ''/sdk'' =
     Some [''/sdk/platforms/android-9'', ''/sdk/platforms/android-10'',
           ''/sdk/platforms/android-19'']
   \<and> version_pairs [''/sdk/platforms/android-9'', ''/sdk/platforms/android-10'',
                  ''/sdk/platforms/android-19''] =
     Some [(''9'', ''/sdk/platforms/android-9''), (''10'', ''/sdk/platforms/android-10''),
           (''19'', ''/sdk/platforms/android-19'')]
   \<and> map_sum id (version \<circ> snd) (get_platform example_host example_world ''/sdk'' (Some []))
       = Inr ''9''
   \<and> platform_dirs (example_world\<lparr>fs := fs example_world @ [(''/sdk/platforms/tmp'', Dir)]\<rparr>)
       ''/sdk'' =
     Some [''/sdk/platforms/android-9'', ''/sdk/platforms/android-10'',
           ''/sdk/platforms/android-19'', ''/sdk/platforms/tmp'']
   \<and> map_sum id snd
       (get_platform example_host
          (example_world\<lparr>fs := fs example_world @ [(''/sdk/platforms/tmp'', Dir)]\<rparr>)
          ''/sdk'' (Some ''11''))
       = Inl IndexError"
  by code_simp

section \<open>The log of tool calls\<close>

lemma invoke_Inr:
  assumes "invoke h w c = Inr w1"
  shows "calls w1 = calls w @ [c]" and "cwd w1 = cwd w" and "now w1 = now w"
    and "run_tool h c (cwd w) (fs w) = Some (fs w1)"
  using assms by (auto simp: invoke_def split: option.splits)

lemma os_mkdir_Inr:
  assumes "os_mkdir w p = Inr w1"
  shows "calls w1 = calls w" and "cwd w1 = cwd w"
  using assms by (auto simp: os_mkdir_def split: if_splits)

lemma os_makedirs_Inr:
  "os_makedirs w p = Inr w1 \<Longrightarrow> calls w1 = calls w \<and> cwd w1 = cwd w"
proof (induction w p arbitrary: w1 rule: os_makedirs.induct)
  case (1 w p)
  define head0 where "head0 = fst (path_split p)"
  define tail0 where "tail0 = snd (path_split p)"
  define head where "head = (if tail0 = [] then fst (path_split head0) else head0)"
  define tail where "tail = (if tail0 = [] then snd (path_split head0) else tail0)"
  define recurse where "recurse \<longleftrightarrow> head \<noteq> [] \<and> tail \<noteq> [] \<and> \<not> os_path_exists w head"
  have eq: "os_makedirs w p =
     (if recurse
      then (case os_makedirs w head of
              Inl (OSError EEXIST q) \<Rightarrow> if tail = ''.'' then Inr w else os_mkdir w p
            | Inl e \<Rightarrow> Inl e
            | Inr w1 \<Rightarrow> if tail = ''.'' then Inr w1 else os_mkdir w1 p)
      else os_mkdir w p)"
    unfolding recurse_def head_def tail_def head0_def tail0_def
    by (subst os_makedirs.simps) (simp only: Let_def)
  show ?case
  proof (cases recurse)
    case False
    with "1.prems" eq have "os_mkdir w p = Inr w1" by simp
    then show ?thesis using os_mkdir_Inr by blast
  next
    case True
    then have c: "head \<noteq> [] \<and> tail \<noteq> [] \<and> \<not> os_path_exists w head"
      by (simp add: recurse_def)
    show ?thesis
    proof (cases "os_makedirs w head")
      case (Inr w0)
      from "1.IH"[OF head0_def tail0_def head_def tail_def c Inr]
      have w0: "calls w0 = calls w \<and> cwd w0 = cwd w" .
      from "1.prems" True Inr eq have "w1 = w0 \<or> os_mkdir w0 p = Inr w1"
        by (simp split: if_splits)
      then show ?thesis using w0 os_mkdir_Inr by metis
    next
      case (Inl e)
      from "1.prems" True Inl eq have "w1 = w \<or> os_mkdir w p = Inr w1"
        by (simp split: if_splits error.splits errno.splits)
      then show ?thesis using os_mkdir_Inr by metis
    qed
  qed
qed

lemma mkdir_Inr:
  assumes "mkdir w p r = Inr w1"
  shows "calls w1 = calls w" and "cwd w1 = cwd w"
  using assms os_mkdir_Inr[of w p w1] os_makedirs_Inr[of w p w1]
  by (auto simp: mkdir_def split: if_splits)

lemma invoke_all_Inr:
  "invoke_all h w cs = Inr w1 \<Longrightarrow> calls w1 = calls w @ cs \<and> cwd w1 = cwd w"
proof (induction cs arbitrary: w)
  case Nil
  then show ?case by simp
next
  case (Cons c cs)
  from Cons.prems obtain w0 where a: "invoke h w c = Inr w0" and b: "invoke_all h w0 cs = Inr w1"
    by (auto simp: and_then_Inr_iff)
  from Cons.IH[OF b] invoke_Inr[OF a] show ?case by simp
qed

lemma generate_r_Inr:
  assumes "generate_r h w self mf res out = Inr w1"
  shows "calls w1 = calls w @ [generate_r_call self mf res out]" and "cwd w1 = cwd w"
proof -
  from assms obtain w0 where a: "mkdir w out False = Inr w0"
    and b: "invoke h w0 (generate_r_call self mf res out) = Inr w1"
    by (auto simp: generate_r_def and_then_Inr_iff)
  from mkdir_Inr[OF a] invoke_Inr[OF b]
  show "calls w1 = calls w @ [generate_r_call self mf res out]" and "cwd w1 = cwd w"
    by simp_all
qed

lemma compile_aidl_Inr:
  assumes "compile_aidl h w self src out = Inr w1"
  shows "calls w1 = calls w @ map (aidl_call self src out) (recursive_glob w src ''*.aidl'')"
    and "cwd w1 = cwd w"
  using invoke_all_Inr[OF assms[unfolded compile_aidl_def]] by simp_all

lemma compile_java_Inr:
  assumes "compile_java h w self dirs out dbg tgt = Inr w1"
  shows "calls w1 = calls w @
           [javac_call self (concat (map (\<lambda>d. recursive_glob w d ''*.java'') dirs)) out dbg tgt]"
    and "cwd w1 = cwd w"
proof -
  let ?c = "javac_call self (concat (map (\<lambda>d. recursive_glob w d ''*.java'') dirs)) out dbg tgt"
  from assms obtain w0 where a: "mkdir w out True = Inr w0" and b: "invoke h w0 ?c = Inr w1"
    by (auto simp: compile_java_def Let_def and_then_Inr_iff)
  from mkdir_Inr[OF a] invoke_Inr[OF b]
  show "calls w1 = calls w @ [?c]" and "cwd w1 = cwd w"
    by simp_all
qed

lemma dex_Inr:
  assumes "dex h w self src out = Inr (w1, c)"
  shows "calls w1 = calls w @ [dex_call self src (abspath (cwd w) out)]"
    and "cwd w1 = cwd w" and "c = CodeObj (abspath (cwd w) out)"
proof -
  from assms have a: "invoke h w (dex_call self src (abspath (cwd w) out)) = Inr w1"
    and c: "c = CodeObj (abspath (cwd w) out)"
    by (auto simp: dex_def Let_def and_then_Inr_iff)
  from invoke_Inr[OF a] c
  show "calls w1 = calls w @ [dex_call self src (abspath (cwd w) out)]"
    and "cwd w1 = cwd w" and "c = CodeObj (abspath (cwd w) out)"
    by simp_all
qed

section \<open>The composite compile operation\<close>

text \<open>
  C7. Whenever the composite \<^verbatim>\<open>compile\<close> of a platform returns, it has run
  \<^verbatim>\<open>generate_r\<close>, then \<^verbatim>\<open>compile_aidl\<close>, then \<^verbatim>\<open>compile_java\<close> on the source
  directory and the generated-source directory, then \<^verbatim>\<open>dex\<close>, each in the world the
  stage before left. The log has grown by exactly the calls of these stages in this
  order: one call of the resource packager, one call of the interface compiler for
  each interface file found, one call of the Java compiler on the sources found in
  both directories after the interfaces were compiled, and one call of the bytecode
  converter. The value returned is the \<^verbatim>\<open>CodeObj\<close> that \<^verbatim>\<open>dex\<close> returned, with the
  absolute output path.
\<close>

theorem compile_runs_stages_in_order:
  assumes "compile h w self dex_output mf src res gen cls debug target = Inr (w4, c)"
  shows "\<exists>w1 w2 w3 dbg tgt.
           dbg = (case debug of None \<Rightarrow> False | Some d \<Rightarrow> d)
         \<and> tgt = (case target of None \<Rightarrow> ''1.5'' | Some t \<Rightarrow> t)
         \<and> generate_r h w self mf res gen = Inr w1
         \<and> compile_aidl h w1 self src gen = Inr w2
         \<and> compile_java h w2 self [src, gen] cls dbg tgt = Inr w3
         \<and> dex h w3 self cls dex_output = Inr (w4, c)
         \<and> calls w4 = calls w
             @ [generate_r_call self mf res gen]
             @ map (aidl_call self src gen) (recursive_glob w1 src ''*.aidl'')
             @ [javac_call self
                  (recursive_glob w2 src ''*.java'' @ recursive_glob w2 gen ''*.java'') cls dbg tgt]
             @ [dex_call self cls (abspath (cwd w) dex_output)]
         \<and> c = CodeObj (abspath (cwd w) dex_output)"
proof -
  let ?dbg = "case debug of None \<Rightarrow> False | Some d \<Rightarrow> d"
  let ?tgt = "case target of None \<Rightarrow> ''1.5'' | Some t \<Rightarrow> t"
  from assms obtain w1 w2 w3 where
    s1: "generate_r h w self mf res gen = Inr w1"
    and s2: "compile_aidl h w1 self src gen = Inr w2"
    and s3: "compile_java h w2 self [src, gen] cls ?dbg ?tgt = Inr w3"
    and s4: "dex h w3 self cls dex_output = Inr (w4, c)"
    by (auto simp: compile_def and_then_Inr_iff)
  have "calls w4 = calls w
             @ [generate_r_call self mf res gen]
             @ map (aidl_call self src gen) (recursive_glob w1 src ''*.aidl'')
             @ [javac_call self
                  (recursive_glob w2 src ''*.java'' @ recursive_glob w2 gen ''*.java'') cls ?dbg ?tgt]
             @ [dex_call self cls (abspath (cwd w) dex_output)]"
    using generate_r_Inr[OF s1] compile_aidl_Inr[OF s2] compile_java_Inr[OF s3] dex_Inr[OF s4]
    by simp
  moreover have "c = CodeObj (abspath (cwd w) dex_output)"
    using generate_r_Inr[OF s1] compile_aidl_Inr[OF s2] compile_java_Inr[OF s3] dex_Inr[OF s4]
    by simp
  ultimately show ?thesis
    using s1 s2 s3 s4 by blast
qed

lemma example_compile:
  "map_sum id (\<lambda>(w, c). (calls w, c)) (compile example_host example_world example_platform
     ''/proj/bin/classes.dex'' ''/proj/AndroidManifest.xml'' ''/proj/src'' ''/proj/res''
     ''/proj/gen'' ''/proj/bin/classes'' None None) =
   Inr ([generate_r_call example_platform ''/proj/AndroidManifest.xml'' ''/proj/res'' ''/proj/gen'',
         aidl_call example_platform ''/proj/src'' ''/proj/gen'' ''/proj/src/IFoo.aidl'',
         javac_call example_platform
           [''/proj/src/Main.java'', ''/proj/gen/R.java'', ''/proj/gen/IFoo.java'']
           ''/proj/bin/classes'' False ''1.5'',
         dex_call example_platform ''/proj/bin/classes'' ''/proj/bin/classes.dex''],
        CodeObj ''/proj/bin/classes.dex'')"
  by code_simp

theorem compile_runs_stages_in_order_witness:
  "map_sum id (\<lambda>(w, c). (calls w, c)) (compile example_host example_world example_platform
     ''/proj/bin/classes.dex'' ''/proj/AndroidManifest.xml'' ''/proj/src'' ''/proj/res''
     ''/proj/gen'' ''/proj/bin/classes'' None None) =
   Inr ([generate_r_call example_platform ''/proj/AndroidManifest.xml'' ''/proj/res'' ''/proj/gen'',
         aidl_call example_platform ''/proj/src'' ''/proj/gen'' ''/proj/src/IFoo.aidl'',
         javac_call example_platform
           [''/proj/src/Main.java'', ''/proj/gen/R.java'', ''/proj/gen/IFoo.java'']
           ''/proj/bin/classes'' False ''1.5'',
         dex_call example_platform ''/proj/bin/classes'' ''/proj/bin/classes.dex''],
        CodeObj (abspath (cwd example_world) ''/proj/bin/classes.dex''))"
proof -
  from example_compile obtain w4 c where
    r: "compile example_host example_world example_platform
     ''/proj/bin/classes.dex'' ''/proj/AndroidManifest.xml'' ''/proj/src'' ''/proj/res''
     ''/proj/gen'' ''/proj/bin/classes'' None None = Inr (w4, c)"
    by (auto simp: map_sum_def split: sum.splits)
  from compile_runs_stages_in_order[OF r]
  have "c = CodeObj (abspath (cwd example_world) ''/proj/bin/classes.dex'')"
    by blast
  with example_compile show ?thesis
    unfolding r by simp
qed

section \<open>The project's operations\<close>

lemma genuine_calls:
  assumes "genuine_tools self"
  shows "\<not> is_javac (generate_r_call self a b c)"
    and "\<not> is_javac (aidl_call self a b c)"
    and "is_javac (javac_call self fs1 o1 d1 t1)"
    and "\<not> is_javac (dex_call self a b)"
    and "\<not> is_javac (pack_resources_call self a b ad o2 cf)"
    and "\<not> is_javac (build_apk_call self a co re)"
  using assms
  by (auto simp: genuine_tools_def generate_r_call_def aidl_call_def javac_call_def dex_call_def
        pack_resources_call_def build_apk_call_def split: tool.splits)

lemma genuine_platform_of: "genuine_tools (platform_of h v s p d)"
  by (simp add: genuine_tools_def platform_of_def)

text \<open>Every platform that the constructor returns has its own tools.\<close>

lemma PlatformTarget_init_genuine:
  "PlatformTarget_init h w v s p cp = Inr (w1, self) \<Longrightarrow> genuine_tools self"
  by (auto simp: PlatformTarget_init_eq genuine_platform_of)

lemma compile_javac_runs:
  assumes "compile h w self dex_output mf src res gen cls debug target = Inr (w4, c)"
  shows "cwd w4 = cwd w"
    and "genuine_tools self \<Longrightarrow> javac_runs w4 = Suc (javac_runs w)"
proof -
  from assms obtain w1 w2 w3 dbg tgt where
    s1: "generate_r h w self mf res gen = Inr w1"
    and s2: "compile_aidl h w1 self src gen = Inr w2"
    and s3: "compile_java h w2 self [src, gen] cls dbg tgt = Inr w3"
    and s4: "dex h w3 self cls dex_output = Inr (w4, c)"
    by (auto simp: compile_def and_then_Inr_iff)
  show "cwd w4 = cwd w"
    using generate_r_Inr[OF s1] compile_aidl_Inr[OF s2] compile_java_Inr[OF s3] dex_Inr[OF s4]
    by simp
  assume g: "genuine_tools self"
  have "filter is_javac (map (aidl_call self src gen) xs) = []" for xs
    using genuine_calls(2)[OF g] by (induction xs) simp_all
  then show "javac_runs w4 = Suc (javac_runs w)"
    using generate_r_Inr[OF s1] compile_aidl_Inr[OF s2] compile_java_Inr[OF s3] dex_Inr[OF s4]
      genuine_calls[OF g]
    by (simp add: javac_runs_def)
qed

lemma AndroidProject_compile_Inr:
  assumes "AndroidProject_compile h w self = Inr (r, w1, self1)"
  shows "r = None" and "\<exists>c. self1 = self\<lparr>code := Some c\<rparr>" and "cwd w1 = cwd w"
    and "genuine_tools (platform self) \<Longrightarrow> javac_runs w1 = Suc (javac_runs w)"
proof -
  from assms obtain c where
    c: "compile h w (platform self) (path_join (out_dir self) [''classes.dex''])
          (manifest self) (source_dir self) (resource_dir self) (gen_dir self)
          (path_join (out_dir self) [''classes'']) None None = Inr (w1, c)"
    and r: "r = None" and s: "self1 = self\<lparr>code := Some c\<rparr>"
    by (auto simp: AndroidProject_compile_def and_then_Inr_iff)
  show "r = None" by (rule r)
  show "\<exists>c. self1 = self\<lparr>code := Some c\<rparr>" using s by blast
  show "cwd w1 = cwd w" by (rule compile_javac_runs(1)[OF c])
  show "genuine_tools (platform self) \<Longrightarrow> javac_runs w1 = Suc (javac_runs w)"
    by (rule compile_javac_runs(2)[OF c])
qed

lemma pack_resources_Inr:
  assumes "pack_resources h w self mf res ad (Some out) cf = Inr (w1, r)"
  shows "calls w1 = calls w @ [pack_resources_call self mf res ad (abspath (cwd w) out) cf]"
    and "cwd w1 = cwd w" and "r = ResourceObj (abspath (cwd w) out)"
proof -
  from assms have a: "invoke h w (pack_resources_call self mf res ad (abspath (cwd w) out) cf) = Inr w1"
    and r: "r = ResourceObj (abspath (cwd w) out)"
    by (auto simp: pack_resources_def Let_def and_then_Inr_iff)
  from invoke_Inr[OF a] r
  show "calls w1 = calls w @ [pack_resources_call self mf res ad (abspath (cwd w) out) cf]"
    and "cwd w1 = cwd w" and "r = ResourceObj (abspath (cwd w) out)"
    by simp_all
qed

lemma build_apk_Inr:
  assumes "build_apk h w self out co re = Inr (w1, apk)"
  shows "calls w1 = calls w @ [build_apk_call self (abspath (cwd w) out) co re]"
    and "cwd w1 = cwd w"
    and "apk = \<lparr>Apk_filename = abspath (cwd w) out, Apk_platform = self\<rparr>"
proof -
  from assms have a: "invoke h w (build_apk_call self (abspath (cwd w) out) co re) = Inr w1"
    and r: "apk = \<lparr>Apk_filename = abspath (cwd w) out, Apk_platform = self\<rparr>"
    by (auto simp: build_apk_def Let_def and_then_Inr_iff)
  from invoke_Inr[OF a] r
  show "calls w1 = calls w @ [build_apk_call self (abspath (cwd w) out) co re]"
    and "cwd w1 = cwd w"
    and "apk = \<lparr>Apk_filename = abspath (cwd w) out, Apk_platform = self\<rparr>"
    by simp_all
qed

lemma build_Inr:
  assumes "build h w self output config = Inr (apk, w3, self1)"
  defines "archive \<equiv>
     (if \<not> truthy config
      then path_join (out_dir self) [name self @ ''.ap_'']
      else path_join (out_dir self)
             [name self @ ''.'' @ (case config of None \<Rightarrow> [] | Some c \<Rightarrow> c) @ ''.ap_''])"
  shows "\<exists>w1 c assets.
           (if code self = None
            then (\<exists>r. AndroidProject_compile h w self = Inr (r, w1, self1))
            else w1 = w \<and> self1 = self)
         \<and> self1 = self\<lparr>code := Some c\<rparr>
         \<and> cwd w1 = cwd w \<and> cwd w3 = cwd w
         \<and> calls w3 = calls w1 @
             [pack_resources_call (platform self) (manifest self) (resource_dir self) assets
                (abspath (cwd w) archive) config,
              build_apk_call (platform self)
                (abspath (cwd w) (path_join (out_dir self) [name self @ ''.apk'']))
                (Some (CodeArtifact c))
                (Some (ResourceArtifact (ResourceObj (abspath (cwd w) archive))))]
         \<and> apk = \<lparr>Apk_filename = abspath (cwd w) (path_join (out_dir self) [name self @ ''.apk'']),
                  Apk_platform = platform self\<rparr>"
proof -
  define rf where "rf (s1::AndroidProject) =
     (if \<not> truthy config
      then path_join (out_dir s1) [name s1 @ ''.ap_'']
      else path_join (out_dir s1)
             [name s1 @ ''.'' @ (case config of None \<Rightarrow> [] | Some c \<Rightarrow> c) @ ''.ap_''])" for s1
  have unfold: "build h w self output config =
     and_then
       (if code self = None
        then and_then (AndroidProject_compile h w self) (\<lambda>(r, w1, self1). Inr (w1, self1))
        else Inr (w, self))
       (\<lambda>(w1, s1).
          and_then
            (pack_resources h w1 (platform s1) (manifest s1) (resource_dir s1)
               (if os_path_exists w1 (asset_dir s1) then Some (asset_dir s1) else None)
               (Some (rf s1)) config)
            (\<lambda>(w2, resources).
               (case code s1 of
                  None \<Rightarrow> Inl AttributeError
                | Some c \<Rightarrow>
                    and_then
                      (build_apk h w2 (platform s1)
                         (path_join (out_dir s1) [name s1 @ ''.apk''])
                         (Some (CodeArtifact c)) (Some (ResourceArtifact resources)))
                      (\<lambda>(w3, apk). Inr (apk, w3, s1)))))"
    unfolding build_def Let_def rf_def ..
  from assms(1)[unfolded unfold and_then_Inr_iff] obtain x where
    fx: "(if code self = None
          then and_then (AndroidProject_compile h w self) (\<lambda>(r, w1, self1). Inr (w1, self1))
          else Inr (w, self)) = Inr x"
    and r1: "(case x of (w1, s1) \<Rightarrow>
          and_then
            (pack_resources h w1 (platform s1) (manifest s1) (resource_dir s1)
               (if os_path_exists w1 (asset_dir s1) then Some (asset_dir s1) else None)
               (Some (rf s1)) config)
            (\<lambda>(w2, resources).
               (case code s1 of
                  None \<Rightarrow> Inl AttributeError
                | Some c \<Rightarrow>
                    and_then
                      (build_apk h w2 (platform s1)
                         (path_join (out_dir s1) [name s1 @ ''.apk''])
                         (Some (CodeArtifact c)) (Some (ResourceArtifact resources)))
                      (\<lambda>(w3, apk). Inr (apk, w3, s1))))) = Inr (apk, w3, self1)"
    by blast
  obtain w1 s1 where x: "x = (w1, s1)" by (cases x)
  from r1[unfolded x prod.case and_then_Inr_iff] obtain y where
    py: "pack_resources h w1 (platform s1) (manifest s1) (resource_dir s1)
               (if os_path_exists w1 (asset_dir s1) then Some (asset_dir s1) else None)
               (Some (rf s1)) config = Inr y"
    and r2: "(case y of (w2, resources) \<Rightarrow>
               (case code s1 of
                  None \<Rightarrow> Inl AttributeError
                | Some c \<Rightarrow>
                    and_then
                      (build_apk h w2 (platform s1)
                         (path_join (out_dir s1) [name s1 @ ''.apk''])
                         (Some (CodeArtifact c)) (Some (ResourceArtifact resources)))
                      (\<lambda>(w3, apk). Inr (apk, w3, s1)))) = Inr (apk, w3, self1)"
    by blast
  obtain w2 resources where y: "y = (w2, resources)" by (cases y)
  from r2[unfolded y prod.case] obtain c where cd0: "code s1 = Some c"
    by (cases "code s1") simp_all
  from r2[unfolded y prod.case cd0 option.case and_then_Inr_iff] obtain z where
    bz: "build_apk h w2 (platform s1) (path_join (out_dir s1) [name s1 @ ''.apk''])
           (Some (CodeArtifact c)) (Some (ResourceArtifact resources)) = Inr z"
    and r3: "(case z of (w3', apk') \<Rightarrow> Inr (apk', w3', s1)) = (Inr (apk, w3, self1)
               :: error + (Apk \<times> world \<times> AndroidProject))"
    by blast
  from r3 have z: "z = (w3, apk)" and s1: "s1 = self1"
    by (cases z; simp)+
  note first = fx[unfolded x s1]
  note pack = py[unfolded y s1 rf_def]
  note cd = cd0[unfolded s1]
  note apk = bz[unfolded z s1]
  have st: "(if code self = None
            then (\<exists>r. AndroidProject_compile h w self = Inr (r, w1, self1))
            else w1 = w \<and> self1 = self)"
    using first by (auto simp: and_then_Inr_iff split: if_splits)
  have s1: "self1 = self\<lparr>code := Some c\<rparr>" and cw: "cwd w1 = cwd w"
  proof -
    show "self1 = self\<lparr>code := Some c\<rparr>"
    proof (cases "code self = None")
      case True
      with st obtain r where "AndroidProject_compile h w self = Inr (r, w1, self1)" by auto
      from AndroidProject_compile_Inr(2)[OF this] cd show ?thesis by auto
    next
      case False
      with st cd show ?thesis by auto
    qed
    show "cwd w1 = cwd w"
    proof (cases "code self = None")
      case True
      with st obtain r where "AndroidProject_compile h w self = Inr (r, w1, self1)" by auto
      from AndroidProject_compile_Inr(3)[OF this] show ?thesis .
    next
      case False
      with st show ?thesis by auto
    qed
  qed
  have fields: "out_dir self1 = out_dir self" "name self1 = name self"
    "platform self1 = platform self" "manifest self1 = manifest self"
    "resource_dir self1 = resource_dir self"
    by (simp_all add: s1)
  note p = pack_resources_Inr[OF pack] and b = build_apk_Inr[OF apk]
  have "calls w3 = calls w1 @
             [pack_resources_call (platform self) (manifest self) (resource_dir self)
                (if os_path_exists w1 (asset_dir self1) then Some (asset_dir self1) else None)
                (abspath (cwd w) archive) config,
              build_apk_call (platform self)
                (abspath (cwd w) (path_join (out_dir self) [name self @ ''.apk'']))
                (Some (CodeArtifact c))
                (Some (ResourceArtifact (ResourceObj (abspath (cwd w) archive))))]"
    using p b cw by (simp add: fields archive_def)
  moreover have "apk = \<lparr>Apk_filename = abspath (cwd w) (path_join (out_dir self) [name self @ ''.apk'']),
                  Apk_platform = platform self\<rparr>"
    using p b cw by (simp add: fields)
  moreover have "cwd w3 = cwd w" using p b cw by simp
  ultimately show ?thesis
    using st s1 cw by blast
qed

section \<open>Compiling and building a project\<close>

text \<open>
  C9. Whenever \<^verbatim>\<open>AndroidProject.compile\<close> returns, the value it returns is \<^verbatim>\<open>None\<close>;
  the \<^verbatim>\<open>CodeObj\<close> that the platform's composite \<^verbatim>\<open>compile\<close> returned for the
  project's standard directories is stored in the attribute \<^verbatim>\<open>code\<close> of the project,
  and nothing else of the project changes.
\<close>

theorem AndroidProject_compile_returns_None:
  assumes "AndroidProject_compile h w self = Inr (r, w1, self1)"
  shows "r = None \<and>
         (\<exists>c. compile h w (platform self) (path_join (out_dir self) [''classes.dex''])
                 (manifest self) (source_dir self) (resource_dir self) (gen_dir self)
                 (path_join (out_dir self) [''classes'']) None None = Inr (w1, c)
              \<and> self1 = self\<lparr>code := Some c\<rparr>)"
  using assms by (auto simp: AndroidProject_compile_def and_then_Inr_iff)

lemma example_project_compile:
  "map_sum id (\<lambda>(r, w, s). (r, javac_runs w, code s))
     (AndroidProject_compile example_host example_world example_project)
   = Inr (None, 1, Some (CodeObj ''/proj/bin/classes.dex''))"
  by code_simp

theorem AndroidProject_compile_returns_None_witness:
  "map_sum id (\<lambda>(r, w, s). (r, code s))
     (AndroidProject_compile example_host example_world example_project)
   = Inr (None, Some (CodeObj ''/proj/bin/classes.dex''))"
proof -
  from example_project_compile obtain r w1 self1 where
    x: "AndroidProject_compile example_host example_world example_project = Inr (r, w1, self1)"
    by (cases "AndroidProject_compile example_host example_world example_project") auto
  from AndroidProject_compile_returns_None[OF x] have "r = None" by blast
  with example_project_compile show ?thesis
    unfolding x by simp
qed

text \<open>
  C6. Take a project whose platform is as its constructor left it, and let a first
  \<^verbatim>\<open>compile()\<close> return; it has stored in the project the \<^verbatim>\<open>CodeObj\<close> that the
  platform's \<^verbatim>\<open>compile\<close> returned. If a second \<^verbatim>\<open>compile()\<close> on the same project
  returns, the Java compiler has been called exactly twice since the start. If
  instead two calls of \<^verbatim>\<open>build()\<close> (with any arguments) follow the first
  \<^verbatim>\<open>compile()\<close> and return, the Java compiler has been called exactly once since the
  start; each of the two builds has made exactly two tool calls, the resource
  packager and then the package builder, and the package builder was handed the
  \<^verbatim>\<open>CodeObj\<close> of the first compilation, which the project still holds.
\<close>

theorem compile_recompiles_and_build_reuses:
  assumes "genuine_tools (platform self)"
    and "AndroidProject_compile h w self = Inr (r1, w1, self1)"
  shows "\<exists>c. compile h w (platform self) (path_join (out_dir self) [''classes.dex''])
               (manifest self) (source_dir self) (resource_dir self) (gen_dir self)
               (path_join (out_dir self) [''classes'']) None None = Inr (w1, c)
           \<and> code self1 = Some c
           \<and> (\<forall>r2 w2 self2.
                 AndroidProject_compile h w1 self1 = Inr (r2, w2, self2) \<longrightarrow>
                   javac_runs w2 = javac_runs w + 2)
           \<and> (\<forall>o1 c1 apk1 w2 self2 o2 c2 apk2 w3 self3.
                 build h w1 self1 o1 c1 = Inr (apk1, w2, self2) \<longrightarrow>
                 build h w2 self2 o2 c2 = Inr (apk2, w3, self3) \<longrightarrow>
                   javac_runs w3 = javac_runs w + 1
                   \<and> code self3 = code self1 \<and> code self1 \<noteq> None
                   \<and> code self2 = Some c \<and> code self3 = Some c
                   \<and> (\<exists>assets1 archive1.
                         calls w2 = calls w1 @
                           [pack_resources_call (platform self) (manifest self) (resource_dir self)
                              assets1 archive1 c1,
                            build_apk_call (platform self)
                              (abspath (cwd w) (path_join (out_dir self) [name self @ ''.apk'']))
                              (Some (CodeArtifact c))
                              (Some (ResourceArtifact (ResourceObj archive1)))])
                   \<and> (\<exists>assets2 archive2.
                         calls w3 = calls w2 @
                           [pack_resources_call (platform self) (manifest self) (resource_dir self)
                              assets2 archive2 c2,
                            build_apk_call (platform self)
                              (abspath (cwd w) (path_join (out_dir self) [name self @ ''.apk'']))
                              (Some (CodeArtifact c))
                              (Some (ResourceArtifact (ResourceObj archive2)))]))"
proof -
  from assms(2) obtain c where
    cc: "compile h w (platform self) (path_join (out_dir self) [''classes.dex''])
          (manifest self) (source_dir self) (resource_dir self) (gen_dir self)
          (path_join (out_dir self) [''classes'']) None None = Inr (w1, c)"
    and s1: "self1 = self\<lparr>code := Some c\<rparr>"
    by (auto simp: AndroidProject_compile_def and_then_Inr_iff)
  from AndroidProject_compile_Inr(3,4)[OF assms(2)] assms(1)
  have cw1: "cwd w1 = cwd w" and n1: "javac_runs w1 = Suc (javac_runs w)"
    by blast+
  have g1: "genuine_tools (platform self1)" using assms(1) s1 by simp
  have cached: "code self1 = Some c" using s1 by simp
  have f1: "platform self1 = platform self" "manifest self1 = manifest self"
    "resource_dir self1 = resource_dir self" "out_dir self1 = out_dir self"
    "name self1 = name self"
    by (simp_all add: s1)
  have recompile: "javac_runs w2 = javac_runs w + 2"
    if "AndroidProject_compile h w1 self1 = Inr (r2, w2, self2)" for r2 w2 self2
    using AndroidProject_compile_Inr(4)[OF that g1] n1 by simp
  have step: "self2 = s \<and> cwd w2 = cwd v
        \<and> (\<exists>assets archive.
              calls w2 = calls v @
                [pack_resources_call (platform self) (manifest self) (resource_dir self)
                   assets archive cf,
                 build_apk_call (platform self)
                   (abspath (cwd w) (path_join (out_dir self) [name self @ ''.apk'']))
                   (Some (CodeArtifact c))
                   (Some (ResourceArtifact (ResourceObj archive)))])"
    if b: "build h v s ou cf = Inr (apk, w2, self2)" and sv: "s = self1" and cv: "cwd v = cwd w"
    for v :: world and s ou cf apk w2 self2
  proof -
    from build_Inr[OF b] obtain v1 :: world and d assets where
      st: "if code s = None
            then \<exists>r. AndroidProject_compile h v s = Inr (r, v1, self2)
            else v1 = v \<and> self2 = s"
      and u: "self2 = s\<lparr>code := Some d\<rparr>"
      and cw: "cwd w2 = cwd v"
      and l: "calls w2 = calls v1 @
             [pack_resources_call (platform s) (manifest s) (resource_dir s) assets
                (abspath (cwd v)
                  (if \<not> truthy cf
                   then path_join (out_dir s) [name s @ ''.ap_'']
                   else path_join (out_dir s)
                          [name s @ ''.'' @ (case cf of None \<Rightarrow> [] | Some c \<Rightarrow> c) @ ''.ap_'']))
                cf,
              build_apk_call (platform s)
                (abspath (cwd v) (path_join (out_dir s) [name s @ ''.apk'']))
                (Some (CodeArtifact d))
                (Some (ResourceArtifact (ResourceObj (abspath (cwd v)
                  (if \<not> truthy cf
                   then path_join (out_dir s) [name s @ ''.ap_'']
                   else path_join (out_dir s)
                          [name s @ ''.'' @ (case cf of None \<Rightarrow> [] | Some c \<Rightarrow> c) @ ''.ap_''])))))]"
      by blast
    from st cached sv have v1: "v1 = v" and e: "self2 = s" by simp_all
    have "code self2 = Some d" using u by simp
    with e sv cached have d: "d = c" by simp
    have "calls w2 = calls v @
             [pack_resources_call (platform self) (manifest self) (resource_dir self) assets
                (abspath (cwd v)
                  (if \<not> truthy cf
                   then path_join (out_dir s) [name s @ ''.ap_'']
                   else path_join (out_dir s)
                          [name s @ ''.'' @ (case cf of None \<Rightarrow> [] | Some c \<Rightarrow> c) @ ''.ap_'']))
                cf,
              build_apk_call (platform self)
                (abspath (cwd w) (path_join (out_dir self) [name self @ ''.apk'']))
                (Some (CodeArtifact c))
                (Some (ResourceArtifact (ResourceObj (abspath (cwd v)
                  (if \<not> truthy cf
                   then path_join (out_dir s) [name s @ ''.ap_'']
                   else path_join (out_dir s)
                          [name s @ ''.'' @ (case cf of None \<Rightarrow> [] | Some c \<Rightarrow> c) @ ''.ap_''])))))]"
      using l unfolding v1 d by (simp add: sv f1 cv)
    then show ?thesis using e cw by blast
  qed
  have reuse: "javac_runs w3 = javac_runs w + 1
                   \<and> code self3 = code self1 \<and> code self1 \<noteq> None
                   \<and> code self2 = Some c \<and> code self3 = Some c
                   \<and> (\<exists>assets1 archive1.
                         calls w2 = calls w1 @
                           [pack_resources_call (platform self) (manifest self) (resource_dir self)
                              assets1 archive1 c1,
                            build_apk_call (platform self)
                              (abspath (cwd w) (path_join (out_dir self) [name self @ ''.apk'']))
                              (Some (CodeArtifact c))
                              (Some (ResourceArtifact (ResourceObj archive1)))])
                   \<and> (\<exists>assets2 archive2.
                         calls w3 = calls w2 @
                           [pack_resources_call (platform self) (manifest self) (resource_dir self)
                              assets2 archive2 c2,
                            build_apk_call (platform self)
                              (abspath (cwd w) (path_join (out_dir self) [name self @ ''.apk'']))
                              (Some (CodeArtifact c))
                              (Some (ResourceArtifact (ResourceObj archive2)))])"
    if b1: "build h w1 self1 o1 c1 = Inr (apk1, w2, self2)"
      and b2: "build h w2 self2 o2 c2 = Inr (apk2, w3, self3)"
    for o1 c1 apk1 w2 self2 o2 c2 apk2 w3 self3
  proof -
    from step[OF b1 refl cw1] obtain assets1 archive1 where
      e1: "self2 = self1" and cw2: "cwd w2 = cwd w1"
      and k1: "calls w2 = calls w1 @
                [pack_resources_call (platform self) (manifest self) (resource_dir self)
                   assets1 archive1 c1,
                 build_apk_call (platform self)
                   (abspath (cwd w) (path_join (out_dir self) [name self @ ''.apk'']))
                   (Some (CodeArtifact c))
                   (Some (ResourceArtifact (ResourceObj archive1)))]"
      by blast
    have cw2': "cwd w2 = cwd w" using cw2 cw1 by simp
    from step[OF b2 e1 cw2'] obtain assets2 archive2 where
      e2: "self3 = self2"
      and k2: "calls w3 = calls w2 @
                [pack_resources_call (platform self) (manifest self) (resource_dir self)
                   assets2 archive2 c2,
                 build_apk_call (platform self)
                   (abspath (cwd w) (path_join (out_dir self) [name self @ ''.apk'']))
                   (Some (CodeArtifact c))
                   (Some (ResourceArtifact (ResourceObj archive2)))]"
      by blast
    have m1: "javac_runs w2 = javac_runs w1"
      unfolding javac_runs_def k1 using genuine_calls(5,6)[OF assms(1)] by simp
    have m2: "javac_runs w3 = javac_runs w2"
      unfolding javac_runs_def k2 using genuine_calls(5,6)[OF assms(1)] by simp
    have a: "javac_runs w3 = javac_runs w + 1" using m1 m2 n1 by simp
    have b: "code self3 = code self1" "code self1 \<noteq> None" "code self2 = Some c"
      "code self3 = Some c"
      using e1 e2 cached by simp_all
    from a b k1 k2 show ?thesis by blast
  qed
  show ?thesis
  proof (intro exI[of _ c] conjI allI impI)
    show "compile h w (platform self) (path_join (out_dir self) [''classes.dex''])
               (manifest self) (source_dir self) (resource_dir self) (gen_dir self)
               (path_join (out_dir self) [''classes'']) None None = Inr (w1, c)"
      by (rule cc)
    show "code self1 = Some c" by (rule cached)
  qed (use recompile reuse in blast)+
qed

lemma example_compile_twice:
  "map_sum id (\<lambda>(r, w, s). javac_runs w)
     (and_then (AndroidProject_compile example_host example_world example_project)
        (\<lambda>(r, w1, self1). AndroidProject_compile example_host w1 self1))
   = Inr 2"
  by code_simp

lemma example_compile_build_twice:
  "map_sum id (\<lambda>(apk, w, s). javac_runs w)
     (and_then (AndroidProject_compile example_host example_world example_project)
        (\<lambda>(r, w1, self1).
           and_then (build example_host w1 self1 None None)
             (\<lambda>(apk, w2, self2). build example_host w2 self2 None (Some ''de''))))
   = Inr 1"
  by code_simp

lemma map_sum_Inr_D: "map_sum f g x = Inr y \<Longrightarrow> \<exists>z. x = Inr z \<and> g z = y"
  by (cases x) auto

lemma example_compile_build_twice_calls:
  "map_sum id (\<lambda>(apk, w, s). (drop 4 (calls w), code s))
     (and_then (AndroidProject_compile example_host example_world example_project)
        (\<lambda>(r, w1, self1).
           and_then (build example_host w1 self1 None None)
             (\<lambda>(apk, w2, self2). build example_host w2 self2 None (Some ''de''))))
   = Inr ([pack_resources_call example_platform ''/proj/AndroidManifest.xml'' ''/proj/res'' None
             ''/proj/bin/com.example.app.ap_'' None,
           build_apk_call example_platform ''/proj/bin/com.example.app.apk''
             (Some (CodeArtifact (CodeObj ''/proj/bin/classes.dex'')))
             (Some (ResourceArtifact (ResourceObj ''/proj/bin/com.example.app.ap_''))),
           pack_resources_call example_platform ''/proj/AndroidManifest.xml'' ''/proj/res'' None
             ''/proj/bin/com.example.app.de.ap_'' (Some ''de''),
           build_apk_call example_platform ''/proj/bin/com.example.app.apk''
             (Some (CodeArtifact (CodeObj ''/proj/bin/classes.dex'')))
             (Some (ResourceArtifact (ResourceObj ''/proj/bin/com.example.app.de.ap_'')))],
          Some (CodeObj ''/proj/bin/classes.dex''))"
  by code_simp

theorem compile_recompiles_and_build_reuses_witness:
  "genuine_tools (platform example_project)
   \<and> javac_runs example_world = 0
   \<and> map_sum id (\<lambda>(r, w, s). javac_runs w)
       (and_then (AndroidProject_compile example_host example_world example_project)
          (\<lambda>(r, w1, self1). AndroidProject_compile example_host w1 self1))
     = Inr (javac_runs example_world + 2)
   \<and> map_sum id (\<lambda>(apk, w, s). javac_runs w)
       (and_then (AndroidProject_compile example_host example_world example_project)
          (\<lambda>(r, w1, self1).
             and_then (build example_host w1 self1 None None)
               (\<lambda>(apk, w2, self2). build example_host w2 self2 None (Some ''de''))))
     = Inr (javac_runs example_world + 1)
   \<and> map_sum id (\<lambda>(apk, w, s). (drop 4 (calls w), code s))
       (and_then (AndroidProject_compile example_host example_world example_project)
          (\<lambda>(r, w1, self1).
             and_then (build example_host w1 self1 None None)
               (\<lambda>(apk, w2, self2). build example_host w2 self2 None (Some ''de''))))
     = Inr ([pack_resources_call example_platform ''/proj/AndroidManifest.xml'' ''/proj/res'' None
               ''/proj/bin/com.example.app.ap_'' None,
             build_apk_call example_platform ''/proj/bin/com.example.app.apk''
               (Some (CodeArtifact (CodeObj ''/proj/bin/classes.dex'')))
               (Some (ResourceArtifact (ResourceObj ''/proj/bin/com.example.app.ap_''))),
             pack_resources_call example_platform ''/proj/AndroidManifest.xml'' ''/proj/res'' None
               ''/proj/bin/com.example.app.de.ap_'' (Some ''de''),
             build_apk_call example_platform ''/proj/bin/com.example.app.apk''
               (Some (CodeArtifact (CodeObj ''/proj/bin/classes.dex'')))
               (Some (ResourceArtifact (ResourceObj ''/proj/bin/com.example.app.de.ap_'')))],
            Some (CodeObj ''/proj/bin/classes.dex''))"
proof -
  have g: "genuine_tools (platform example_project)"
    by (simp add: genuine_tools_def example_project_def example_platform_def)
  have z: "javac_runs example_world = 0"
    by (simp add: javac_runs_def example_world_def)
  from map_sum_Inr_D[OF example_compile_twice] obtain y where
    t: "and_then (AndroidProject_compile example_host example_world example_project)
          (\<lambda>(r, w1, self1). AndroidProject_compile example_host w1 self1) = Inr y"
    by blast
  from t[unfolded and_then_Inr_iff] obtain r1 w1 self1 where
    c1: "AndroidProject_compile example_host example_world example_project = Inr (r1, w1, self1)"
    by auto
  from compile_recompiles_and_build_reuses[OF g c1] obtain c where
    again: "\<forall>r2 w2 self2.
              AndroidProject_compile example_host w1 self1 = Inr (r2, w2, self2) \<longrightarrow>
                javac_runs w2 = javac_runs example_world + 2"
    and reuse: "\<forall>o1 c1 apk1 w2 self2 o2 c2 apk2 w3 self3.
              build example_host w1 self1 o1 c1 = Inr (apk1, w2, self2) \<longrightarrow>
              build example_host w2 self2 o2 c2 = Inr (apk2, w3, self3) \<longrightarrow>
                javac_runs w3 = javac_runs example_world + 1"
    by blast
  obtain r2 w2 self2 where c2: "AndroidProject_compile example_host w1 self1 = Inr (r2, w2, self2)"
    using t unfolding c1 by (cases y) simp
  from again c2 have n2: "javac_runs w2 = javac_runs example_world + 2" by blast
  from map_sum_Inr_D[OF example_compile_build_twice] obtain y2 where
    u: "and_then (AndroidProject_compile example_host example_world example_project)
          (\<lambda>(r, w1, self1).
             and_then (build example_host w1 self1 None None)
               (\<lambda>(apk, w2, self2). build example_host w2 self2 None (Some ''de''))) = Inr y2"
    by blast
  from u[unfolded c1] have u1: "and_then (build example_host w1 self1 None None)
               (\<lambda>(apk, w2, self2). build example_host w2 self2 None (Some ''de'')) = Inr y2"
    by simp
  from u1[unfolded and_then_Inr_iff] obtain a1 v2 s2 where
    b1: "build example_host w1 self1 None None = Inr (a1, v2, s2)"
    by auto
  obtain a2 v3 s3 where b2: "build example_host v2 s2 None (Some ''de'') = Inr (a2, v3, s3)"
    using u1 unfolding b1 by (cases y2) simp
  from reuse b1 b2 have n3: "javac_runs v3 = javac_runs example_world + 1" by blast
  have first: "genuine_tools (platform example_project)
   \<and> javac_runs example_world = 0
   \<and> map_sum id (\<lambda>(r, w, s). javac_runs w)
       (and_then (AndroidProject_compile example_host example_world example_project)
          (\<lambda>(r, w1, self1). AndroidProject_compile example_host w1 self1))
     = Inr (javac_runs example_world + 2)
   \<and> map_sum id (\<lambda>(apk, w, s). javac_runs w)
       (and_then (AndroidProject_compile example_host example_world example_project)
          (\<lambda>(r, w1, self1).
             and_then (build example_host w1 self1 None None)
               (\<lambda>(apk, w2, self2). build example_host w2 self2 None (Some ''de''))))
     = Inr (javac_runs example_world + 1)"
    using g z n2 n3 unfolding c1 and_then_Inr prod.case c2 b1 b2 by simp
  from first example_compile_build_twice_calls show ?thesis
    by (intro conjI) blast+
qed

section \<open>Output paths of a build\<close>

lemma endswith_snoc: "endswith (x @ [c]) ''/'' \<longleftrightarrow> c = CHR ''/''"
  by (simp add: endswith_def)

lemma path_join_bin:
  "path_join d [''bin''] = (if d = [] \<or> endswith d ''/'' then d @ ''bin'' else d @ ''/bin'')"
  by (simp add: path_join_def path_join2_def startswith_def)

lemma path_join_under_bin:
  assumes "\<not> startswith f ''/''"
  shows "path_join (path_join d [''bin'']) [f] = path_join d [''bin''] @ ''/'' @ f"
proof -
  obtain x where x: "path_join d [''bin''] = x @ ''n''"
    by (cases "d = [] \<or> endswith d ''/''") (simp_all add: path_join_bin)
  have "\<not> endswith (x @ ''n'') ''/''" using endswith_snoc[of x "CHR ''n''"] by simp
  then show ?thesis
    using assms unfolding x by (simp add: path_join_def path_join2_def)
qed

lemma startswith_slash_append:
  assumes "\<not> startswith n ''/''" and "\<not> startswith s ''/''"
  shows "\<not> startswith (n @ s) ''/''"
  using assms by (cases n) (simp_all add: startswith_def)

text \<open>
  C8, as amended. Take a project whose output directory is \<^verbatim>\<open><project>/bin\<close>, as the
  constructor sets it, and whose name does not begin with \<^verbatim>\<open>/\<close>. Whenever \<^verbatim>\<open>build\<close>
  returns, its last two tool calls are the resource packager, writing the archive,
  and the package builder, writing the package from the cached code and that
  archive. The archive is the absolute form of \<^verbatim>\<open><out>/<name>.ap_\<close> when no
  configuration or an empty one is given, and of \<^verbatim>\<open><out>/<name>.<config>.ap_\<close> when
  a non-empty configuration is given; the package, which is also the path of the
  \<^verbatim>\<open>Apk\<close> returned, is the absolute form of \<^verbatim>\<open><out>/<name>.apk\<close> in both cases.
\<close>

theorem build_output_paths:
  assumes "build h w self output config = Inr (apk, w3, self1)"
    and "out_dir self = path_join project_dir [''bin'']"
    and "\<not> startswith (name self) ''/''"
  shows "\<exists>before assets c archive package.
           archive = abspath (cwd w)
             (out_dir self @ ''/'' @ name self
                @ (case config of None \<Rightarrow> [] | Some cf \<Rightarrow> if cf = [] then [] else ''.'' @ cf)
                @ ''.ap_'')
         \<and> package = abspath (cwd w) (out_dir self @ ''/'' @ name self @ ''.apk'')
         \<and> calls w3 = before @
             [pack_resources_call (platform self) (manifest self) (resource_dir self) assets
                archive config,
              build_apk_call (platform self) package (Some (CodeArtifact c))
                (Some (ResourceArtifact (ResourceObj archive)))]
         \<and> Apk_filename apk = package"
proof -
  let ?suffix = "case config of None \<Rightarrow> [] | Some cf \<Rightarrow> if cf = [] then [] else ''.'' @ cf"
  let ?archive0 = "if \<not> truthy config
      then path_join (out_dir self) [name self @ ''.ap_'']
      else path_join (out_dir self)
             [name self @ ''.'' @ (case config of None \<Rightarrow> [] | Some c \<Rightarrow> c) @ ''.ap_'']"
  have n1: "\<not> startswith (name self @ t) ''/''" if "\<not> startswith t ''/''" for t
    using assms(3) that by (rule startswith_slash_append)
  have a: "?archive0 = out_dir self @ ''/'' @ name self @ ?suffix @ ''.ap_''"
  proof (cases config)
    case None
    then show ?thesis
      using path_join_under_bin[OF n1[of "''.ap_''"], of project_dir]
      by (simp add: truthy_def assms(2) startswith_def)
  next
    case (Some cf)
    show ?thesis
    proof (cases "cf = []")
      case True
      with Some show ?thesis
        using path_join_under_bin[OF n1[of "''.ap_''"], of project_dir]
        by (simp add: truthy_def assms(2) startswith_def)
    next
      case False
      with Some show ?thesis
        using path_join_under_bin[OF n1[of "''.'' @ cf @ ''.ap_''"], of project_dir]
        by (simp add: truthy_def assms(2) startswith_def)
    qed
  qed
  have p: "path_join (out_dir self) [name self @ ''.apk''] = out_dir self @ ''/'' @ name self @ ''.apk''"
    using path_join_under_bin[OF n1[of "''.apk''"], of project_dir]
    by (simp add: assms(2) startswith_def)
  from build_Inr[OF assms(1)] obtain w1 :: world and c assets where
    "calls w3 = calls w1 @
             [pack_resources_call (platform self) (manifest self) (resource_dir self) assets
                (abspath (cwd w) ?archive0) config,
              build_apk_call (platform self)
                (abspath (cwd w) (path_join (out_dir self) [name self @ ''.apk'']))
                (Some (CodeArtifact c))
                (Some (ResourceArtifact (ResourceObj (abspath (cwd w) ?archive0))))]"
    and "apk = \<lparr>Apk_filename = abspath (cwd w) (path_join (out_dir self) [name self @ ''.apk'']),
                  Apk_platform = platform self\<rparr>"
    by blast
  then have "calls w3 = calls w1 @
             [pack_resources_call (platform self) (manifest self) (resource_dir self) assets
                (abspath (cwd w) (out_dir self @ ''/'' @ name self @ ?suffix @ ''.ap_'')) config,
              build_apk_call (platform self)
                (abspath (cwd w) (out_dir self @ ''/'' @ name self @ ''.apk''))
                (Some (CodeArtifact c))
                (Some (ResourceArtifact (ResourceObj
                   (abspath (cwd w) (out_dir self @ ''/'' @ name self @ ?suffix @ ''.ap_'')))))]"
    and "Apk_filename apk = abspath (cwd w) (out_dir self @ ''/'' @ name self @ ''.apk'')"
    unfolding a p by simp_all
  then show ?thesis by blast
qed

lemma example_build_de:
  "map_sum id (\<lambda>(apk, w, s). (Apk_filename apk, drop (length (calls w) - 2) (calls w)))
     (build example_host example_world example_project None (Some ''de''))
   = Inr (''/proj/bin/com.example.app.apk'',
          [pack_resources_call example_platform ''/proj/AndroidManifest.xml'' ''/proj/res'' None
             ''/proj/bin/com.example.app.de.ap_'' (Some ''de''),
           build_apk_call example_platform ''/proj/bin/com.example.app.apk''
             (Some (CodeArtifact (CodeObj ''/proj/bin/classes.dex'')))
             (Some (ResourceArtifact (ResourceObj ''/proj/bin/com.example.app.de.ap_'')))])"
  by code_simp

lemma example_build_plain:
  "map_sum id (\<lambda>(apk, w, s). (Apk_filename apk, drop (length (calls w) - 2) (calls w)))
     (build example_host example_world example_project None None)
   = Inr (''/proj/bin/com.example.app.apk'',
          [pack_resources_call example_platform ''/proj/AndroidManifest.xml'' ''/proj/res'' None
             ''/proj/bin/com.example.app.ap_'' None,
           build_apk_call example_platform ''/proj/bin/com.example.app.apk''
             (Some (CodeArtifact (CodeObj ''/proj/bin/classes.dex'')))
             (Some (ResourceArtifact (ResourceObj ''/proj/bin/com.example.app.ap_'')))])"
  by code_simp

lemma example_abspaths:
  "abspath (cwd example_world) (out_dir example_project @ CHR ''/'' # name example_project @ ''.apk'')
     = ''/proj/bin/com.example.app.apk''"
  "abspath (cwd example_world)
     (out_dir example_project @ CHR ''/'' # name example_project @ ''.de.ap_'')
     = ''/proj/bin/com.example.app.de.ap_''"
  "abspath (cwd example_world) (out_dir example_project @ CHR ''/'' # name example_project @ ''.ap_'')
     = ''/proj/bin/com.example.app.ap_''"
  by code_simp+

theorem build_output_paths_witness:
  "out_dir example_project = path_join ''/proj'' [''bin'']
   \<and> map_sum id (Apk_filename \<circ> fst)
       (build example_host example_world example_project None (Some ''de''))
     = Inr ''/proj/bin/com.example.app.apk''
   \<and> map_sum id (\<lambda>(apk, w, s). last (butlast (calls w)))
       (build example_host example_world example_project None (Some ''de''))
     = Inr (pack_resources_call example_platform ''/proj/AndroidManifest.xml'' ''/proj/res'' None
             ''/proj/bin/com.example.app.de.ap_'' (Some ''de''))
   \<and> map_sum id (Apk_filename \<circ> fst)
       (build example_host example_world example_project None None)
     = Inr ''/proj/bin/com.example.app.apk''
   \<and> map_sum id (\<lambda>(apk, w, s). last (butlast (calls w)))
       (build example_host example_world example_project None None)
     = Inr (pack_resources_call example_platform ''/proj/AndroidManifest.xml'' ''/proj/res'' None
             ''/proj/bin/com.example.app.ap_'' None)"
proof -
  have o: "out_dir example_project = path_join ''/proj'' [''bin'']"
    by code_simp
  have n: "\<not> startswith (name example_project) ''/''"
    by code_simp
  have f: "platform example_project = example_platform"
    "manifest example_project = ''/proj/AndroidManifest.xml''"
    "resource_dir example_project = ''/proj/res''"
    by (simp_all add: example_project_def)
  from map_sum_Inr_D[OF example_build_de] obtain apk1 w1 s1 where
    b1: "build example_host example_world example_project None (Some ''de'') = Inr (apk1, w1, s1)"
    and l1: "drop (length (calls w1) - 2) (calls w1) =
          [pack_resources_call example_platform ''/proj/AndroidManifest.xml'' ''/proj/res'' None
             ''/proj/bin/com.example.app.de.ap_'' (Some ''de''),
           build_apk_call example_platform ''/proj/bin/com.example.app.apk''
             (Some (CodeArtifact (CodeObj ''/proj/bin/classes.dex'')))
             (Some (ResourceArtifact (ResourceObj ''/proj/bin/com.example.app.de.ap_'')))]"
    by auto
  from build_output_paths[OF b1 o n] obtain before1 assets1 c1 where
    p1: "Apk_filename apk1 = ''/proj/bin/com.example.app.apk''"
    and k1: "calls w1 = before1 @
          [pack_resources_call example_platform ''/proj/AndroidManifest.xml'' ''/proj/res'' assets1
             ''/proj/bin/com.example.app.de.ap_'' (Some ''de''),
           build_apk_call example_platform ''/proj/bin/com.example.app.apk''
             (Some (CodeArtifact c1))
             (Some (ResourceArtifact (ResourceObj ''/proj/bin/com.example.app.de.ap_'')))]"
    unfolding f by (auto simp: example_abspaths)
  from k1 l1 have a1:
    "pack_resources_call example_platform ''/proj/AndroidManifest.xml'' ''/proj/res'' assets1
       ''/proj/bin/com.example.app.de.ap_'' (Some ''de'')
     = pack_resources_call example_platform ''/proj/AndroidManifest.xml'' ''/proj/res'' None
       ''/proj/bin/com.example.app.de.ap_'' (Some ''de'')"
    by simp
  from map_sum_Inr_D[OF example_build_plain] obtain apk2 w2 s2 where
    b2: "build example_host example_world example_project None None = Inr (apk2, w2, s2)"
    and l2: "drop (length (calls w2) - 2) (calls w2) =
          [pack_resources_call example_platform ''/proj/AndroidManifest.xml'' ''/proj/res'' None
             ''/proj/bin/com.example.app.ap_'' None,
           build_apk_call example_platform ''/proj/bin/com.example.app.apk''
             (Some (CodeArtifact (CodeObj ''/proj/bin/classes.dex'')))
             (Some (ResourceArtifact (ResourceObj ''/proj/bin/com.example.app.ap_'')))]"
    by auto
  from build_output_paths[OF b2 o n] obtain before2 assets2 c2 where
    p2: "Apk_filename apk2 = ''/proj/bin/com.example.app.apk''"
    and k2: "calls w2 = before2 @
          [pack_resources_call example_platform ''/proj/AndroidManifest.xml'' ''/proj/res'' assets2
             ''/proj/bin/com.example.app.ap_'' None,
           build_apk_call example_platform ''/proj/bin/com.example.app.apk''
             (Some (CodeArtifact c2))
             (Some (ResourceArtifact (ResourceObj ''/proj/bin/com.example.app.ap_'')))]"
    unfolding f by (auto simp: example_abspaths)
  from k2 l2 have a2:
    "pack_resources_call example_platform ''/proj/AndroidManifest.xml'' ''/proj/res'' assets2
       ''/proj/bin/com.example.app.ap_'' None
     = pack_resources_call example_platform ''/proj/AndroidManifest.xml'' ''/proj/res'' None
       ''/proj/bin/com.example.app.ap_'' None"
    by simp
  show ?thesis
    unfolding b1 b2 using o p1 p2 k1 k2 a1 a2 by (simp add: butlast_append)
qed

text \<open>
  The claim C8 as it stands speaks of every project name. A name that begins with
  \<^verbatim>\<open>/\<close> is accepted by the constructor, and \<^verbatim>\<open>path.join\<close> then drops the output
  directory: for the name \<^verbatim>\<open>/x\<close> the archive is \<^verbatim>\<open>/x.ap_\<close> and the package is
  \<^verbatim>\<open>/x.apk\<close>, not the files of those names under \<^verbatim>\<open>/proj/bin\<close>.
\<close>

theorem build_absolute_name_counterexample:
  "map_sum id snd
     (AndroidProject_init example_host example_world ''AndroidManifest.xml'' (Some ''/x'')
        (Some example_platform) None None)
     = Inr (example_project\<lparr>name := ''/x''\<rparr>)
   \<and> out_dir (example_project\<lparr>name := ''/x''\<rparr>) = ''/proj/bin''
   \<and> map_sum id (Apk_filename \<circ> fst)
       (build example_host example_world (example_project\<lparr>name := ''/x''\<rparr>) None None)
     = Inr ''/x.apk''
   \<and> map_sum id (\<lambda>(apk, w, s). last (butlast (calls w)))
       (build example_host example_world (example_project\<lparr>name := ''/x''\<rparr>) None None)
     = Inr (pack_resources_call example_platform ''/proj/AndroidManifest.xml'' ''/proj/res'' None
             ''/x.ap_'' None)
   \<and> abspath (cwd example_world) (''/proj/bin'' @ ''/'' @ ''/x'' @ ''.apk'') = ''/proj/bin/x.apk''
   \<and> abspath (cwd example_world) (''/proj/bin'' @ ''/'' @ ''/x'' @ ''.ap_'') = ''/proj/bin/x.ap_''"
  by code_simp

section \<open>Cleaning\<close>

text \<open>
  Whenever \<^verbatim>\<open>clean\<close> returns, the output directory is gone if it was a directory, and
  a generated-source directory outside it is as it was: the second test of \<^verbatim>\<open>clean\<close>
  is on the output directory again, which by then does not exist.
\<close>

lemma map_of_filter_keys:
  "map_of (filter (\<lambda>(q, n). P q) xs) k = (if P k then map_of xs k else None)"
  by (induction xs) auto

lemma within_self: "within p p"
  by (simp add: within_def)

lemma clean_gen_dir_untouched:
  assumes "clean w self = Inr w1" and "\<not> within (out_dir self) (gen_dir self)"
  shows "map_of (fs w1) (gen_dir self) = map_of (fs w) (gen_dir self)"
    and "\<not> os_path_exists w1 (out_dir self) \<or> \<not> os_path_isdir w (out_dir self)"
proof -
  show "map_of (fs w1) (gen_dir self) = map_of (fs w) (gen_dir self)"
  proof (cases "os_path_exists w (out_dir self)")
    case False
    with assms(1) show ?thesis by (simp add: clean_def)
  next
    case True
    with assms(1) obtain w0 where r: "shutil_rmtree w (out_dir self) = Inr w0"
      by (auto simp: clean_def and_then_Inr_iff)
    then have f: "fs w0 = filter (\<lambda>(q, n). \<not> within (out_dir self) q) (fs w)"
      by (auto simp: shutil_rmtree_def split: if_splits)
    then have gone: "\<not> os_path_exists w0 (out_dir self)"
      by (simp add: os_path_exists_def map_of_filter_keys within_self)
    with assms(1) True r have "w1 = w0"
      by (simp add: clean_def)
    then show ?thesis
      using f assms(2) by (simp add: map_of_filter_keys)
  qed
  show "\<not> os_path_exists w1 (out_dir self) \<or> \<not> os_path_isdir w (out_dir self)"
  proof (cases "os_path_exists w (out_dir self)")
    case False
    then show ?thesis by (simp add: os_path_exists_def os_path_isdir_def)
  next
    case True
    with assms(1) obtain w0 where r: "shutil_rmtree w (out_dir self) = Inr w0"
      by (auto simp: clean_def and_then_Inr_iff)
    then have f: "fs w0 = filter (\<lambda>(q, n). \<not> within (out_dir self) q) (fs w)"
      by (auto simp: shutil_rmtree_def split: if_splits)
    then have gone: "\<not> os_path_exists w0 (out_dir self)"
      by (simp add: os_path_exists_def map_of_filter_keys within_self)
    with assms(1) True r have "w1 = w0"
      by (simp add: clean_def)
    with gone show ?thesis by simp
  qed
qed

text \<open>
  C2. The claim: \<^verbatim>\<open>clean()\<close> removes the output directory and, independently, the
  generated-source directory, each exactly when it is present. In the world after a
  build both \<^verbatim>\<open>/proj/bin\<close> and \<^verbatim>\<open>/proj/gen\<close> are directories; \<^verbatim>\<open>clean()\<close> returns
  with \<^verbatim>\<open>/proj/bin\<close> removed and with \<^verbatim>\<open>/proj/gen\<close> and the file in it still there.
\<close>

theorem clean_leaves_generated_sources:
  "map_sum id (\<lambda>w. (os_path_exists w ''/proj/bin'', os_path_exists w ''/proj/gen'',
                     os_path_exists w ''/proj/gen/R.java''))
     (clean example_built_world example_project) = Inr (False, True, True)
   \<and> os_path_isdir example_built_world (out_dir example_project)
   \<and> os_path_isdir example_built_world (gen_dir example_project)"
  by code_simp

section \<open>Alignment in place\<close>





lemma example_align:
  "map_sum id (\<lambda>(w, a). (a, map_of (fs w) ''/proj/bin/com.example.app.apk'',
                            os_path_exists w ''/proj/bin/com.example.app.apk.align.1320000000.12'',
                            calls w))
     (align example_host example_built_world example_platform
        (ApkArtifact \<lparr>Apk_filename = ''/proj/bin/com.example.app.apk'',
                      Apk_platform = example_platform\<rparr>) None)
   = Inr (ApkArtifact \<lparr>Apk_filename = ''/proj/bin/com.example.app.apk'',
                       Apk_platform = example_platform\<rparr>,
          Some (File ''PK''), False,
          [zipalign_call example_platform ''/proj/bin/com.example.app.apk''
             ''/proj/bin/com.example.app.apk.align.1320000000.12''])"
  by code_simp


end
